theory Spec2Isabelle
  imports Complex_Main "HOL-Library.Word" "HOL-Library.Char_ord" "HOL-Library.List_Lexorder"
    "HOL-Library.Product_Lexorder"
begin

section \<open>Analytics routes of the Retinal-AI MongoDB backend\<close>

text \<open>
  The development embeds the Express router of the analytics routes
  (\<^verbatim>\<open>module.exports = (models, authenticateToken, requireRole, upload, broadcastUpdate)\<close>)
  together with the two middlewares and the broadcaster of the server entry point.

  Conventions of the embedding:
  \<^item> a JavaScript \<^verbatim>\<open>Number\<close> is its exact value, a rational, and the sums and averages of
    the database are exact; \<^verbatim>\<open>null\<close>/\<^verbatim>\<open>undefined\<close> is \<open>None\<close>;
  \<^item> a \<^verbatim>\<open>Date\<close> is its time value, the milliseconds since the epoch, an \<open>int\<close>;
  \<^item> an ObjectId is a value of 12 bytes; a string is another kind of value. A query built
    with \<^verbatim>\<open>find\<close>, \<^verbatim>\<open>findOne\<close> or \<^verbatim>\<open>countDocuments\<close> is cast against the schema, so a
    string given for an ObjectId field becomes the ObjectId it spells, or the query fails
    with a \<^verbatim>\<open>CastError\<close>, which the handler's \<^verbatim>\<open>catch\<close> answers with status 500. The
    stages of an \<^verbatim>\<open>aggregate\<close> pipeline are sent as they are written;
  \<^item> a collection is the list of its documents in natural order; apart from the cast, the
    queries always answer;
  \<^item> a response is either \<open>Fail status message\<close> (\<^verbatim>\<open>res.status(s).json({error: m})\<close>) or
    \<open>Success body\<close> (\<^verbatim>\<open>res.json(body)\<close>, status 200).
\<close>

subsection \<open>Numbers and strings of the runtime\<close>

definition digitChar :: "nat \<Rightarrow> char" where
  "digitChar d = ''0123456789'' ! d"

function digitsOf :: "nat \<Rightarrow> string" where
  "digitsOf n = (if n < 10 then [digitChar n] else digitsOf (n div 10) @ [digitChar (n mod 10)])"
  by pat_completeness auto
termination
  by (relation "measure id") auto

declare digitsOf.simps [simp del]

text \<open>\<^verbatim>\<open>$toString\<close> on an integer: its decimal numeral, with a sign when negative.\<close>

definition toString :: "int \<Rightarrow> string" where
  "toString i = (if i < 0 then CHR ''-'' # digitsOf (nat (- i)) else digitsOf (nat i))"

text \<open>
  \<^verbatim>\<open>Number.prototype.toFixed(f)\<close> on the exact value \<open>x\<close> of the number: the integer \<open>n\<close>
  nearest to \<open>x * 10^f\<close> (the larger one on a tie), printed with at least \<open>f + 1\<close> digits
  and a point before the last \<open>f\<close>; a negative \<open>x\<close> is printed as the sign followed by
  the digits of \<open>- x\<close>. Values from \<open>10^21\<close> on, which JavaScript prints in exponent
  notation, are outside the range of the scores this development is about.
\<close>

definition toFixed :: "nat \<Rightarrow> rat \<Rightarrow> string" where
  "toFixed f x =
     (let n = nat \<lfloor>\<bar>x\<bar> * 10 ^ f + 1 / 2\<rfloor>;
          m = digitsOf n;
          m' = (if length m \<le> f then replicate (f + 1 - length m) CHR ''0'' @ m else m);
          k = length m';
          s = (if x < 0 then ''-'' else '''')
      in s @ (if f = 0 then m' else take (k - f) m' @ ''.'' @ drop (k - f) m'))"

text \<open>Left padding with zeros, as \<^verbatim>\<open>$dateToString\<close> does for \<^verbatim>\<open>%Y\<close>, \<^verbatim>\<open>%m\<close> and \<^verbatim>\<open>%d\<close>.\<close>

definition padZero :: "nat \<Rightarrow> string \<Rightarrow> string" where
  "padZero w s = replicate (w - length s) CHR ''0'' @ s"

subsection \<open>ObjectIds and the values a pipeline compares\<close>

text \<open>
  An ObjectId is 12 bytes. Its string form (\<^verbatim>\<open>toString\<close>, and what \<^verbatim>\<open>JSON.stringify\<close> puts
  into the payload of a token) is 24 lower-case hexadecimal digits. The cast of a string to
  an ObjectId accepts 24 hexadecimal digits of either case; older versions of the driver
  also accept any string of 12 characters, taken as the 12 bytes, which \<open>twelve\<close> says.
  Every other string is refused. A string is the list of its bytes.
\<close>

type_synonym objectId = "96 word"

definition hexChar :: "nat \<Rightarrow> char" where
  "hexChar d = ''0123456789abcdef'' ! d"

definition hexValue :: "char \<Rightarrow> nat option" where
  "hexValue c =
     map_of (zip ''0123456789abcdefABCDEF''
                 [0, 1, 2, 3, 4, 5, 6, 7, 8, 9, 10, 11, 12, 13, 14, 15, 10, 11, 12, 13, 14, 15]) c"

fun toHex :: "nat \<Rightarrow> nat \<Rightarrow> string" where
  "toHex 0 n = []"
| "toHex (Suc k) n = toHex k (n div 16) @ [hexChar (n mod 16)]"

fun fromHex :: "nat \<Rightarrow> string \<Rightarrow> nat option" where
  "fromHex acc [] = Some acc"
| "fromHex acc (c # cs) =
     (case hexValue c of None \<Rightarrow> None | Some v \<Rightarrow> fromHex (16 * acc + v) cs)"

definition hexString :: "objectId \<Rightarrow> string" where
  "hexString w = toHex 24 (unat w)"

definition fromBytes :: "string \<Rightarrow> nat" where
  "fromBytes s = foldl (\<lambda>acc c. 256 * acc + of_char c) 0 s"

definition castObjectId :: "bool \<Rightarrow> string \<Rightarrow> objectId option" where
  "castObjectId twelve s =
     (if length s = 24 then map_option of_nat (fromHex 0 s)
      else if twelve \<and> length s = 12 then Some (of_nat (fromBytes s))
      else None)"

text \<open>
  The values that a \<^verbatim>\<open>$match\<close> stage of an aggregation compares. Values of different kinds
  are never equal: a stored ObjectId does not match the string that spells it.
\<close>

datatype bson = BsonObjectId objectId | BsonString string

subsection \<open>Dates\<close>

type_synonym date = int

definition msPerDay :: int where
  "msPerDay = 86400000"

definition Day :: "date \<Rightarrow> int" where
  "Day t = t div msPerDay"

definition TimeWithinDay :: "date \<Rightarrow> int" where
  "TimeWithinDay t = t mod msPerDay"

definition MakeTime :: "int \<Rightarrow> int \<Rightarrow> int \<Rightarrow> int \<Rightarrow> int" where
  "MakeTime h mi s ms = h * 3600000 + mi * 60000 + s * 1000 + ms"

text \<open>
  The Gregorian date of a day number (days since 1970-01-01), by the usual decomposition
  into 400-year eras of 146097 days with the year beginning on 1 March. The month is
  found by walking the lengths of the months March to January.
\<close>

fun monthWalk :: "int list \<Rightarrow> int \<Rightarrow> int \<Rightarrow> int \<times> int" where
  "monthWalk [] doy mp = (mp, doy)"
| "monthWalk (l # ls) doy mp =
     (if doy < l then (mp, doy) else monthWalk ls (doy - l) (mp + 1))"

definition marchMonths :: "int list" where
  "marchMonths = [31, 30, 31, 30, 31, 31, 30, 31, 30, 31, 31]"

definition civilFromDays :: "int \<Rightarrow> int \<times> int \<times> int" where
  "civilFromDays z0 =
     (let z = z0 + 719468;
          era = z div 146097;
          doe = z mod 146097;
          yoe = (doe - doe div 1460 + doe div 36524 - doe div 146096) div 365;
          doy = doe - (365 * yoe + yoe div 4 - yoe div 100);
          (mp, dd) = monthWalk marchMonths doy 0;
          m = (if mp < 10 then mp + 3 else mp - 9);
          y = yoe + era * 400 + (if m \<le> 2 then 1 else 0)
      in (y, m, dd + 1))"

definition daysFromCivil :: "int \<Rightarrow> int \<Rightarrow> int \<Rightarrow> int" where
  "daysFromCivil y m d =
     (let y' = (if m \<le> 2 then y - 1 else y);
          era = y' div 400;
          yoe = y' mod 400;
          doy = (153 * (if m > 2 then m - 3 else m + 9) + 2) div 5 + d - 1;
          doe = yoe * 365 + yoe div 4 - yoe div 100 + doy
      in era * 146097 + doe - 719468)"

text \<open>The operators \<^verbatim>\<open>$year\<close> and \<^verbatim>\<open>$month\<close> of the aggregation pipeline read a date in UTC.\<close>

definition yearOf :: "date \<Rightarrow> int" where
  "yearOf t = fst (civilFromDays (Day t))"

definition monthOf :: "date \<Rightarrow> int" where
  "monthOf t = fst (snd (civilFromDays (Day t)))"

definition dayOfMonth :: "date \<Rightarrow> int" where
  "dayOfMonth t = snd (snd (civilFromDays (Day t)))"

text \<open>\<^verbatim>\<open>$dateToString\<close> with format \<^verbatim>\<open>%Y-%m-%d\<close>.\<close>

definition dateToString :: "date \<Rightarrow> string" where
  "dateToString t =
     padZero 4 (toString (yearOf t)) @ ''-'' @ padZero 2 (toString (monthOf t)) @ ''-''
       @ padZero 2 (toString (dayOfMonth t))"

text \<open>
  Two defaults of the object-document mapper changed with its major version 6: from then on
  a key whose value is \<^verbatim>\<open>undefined\<close> is dropped from an update (before, it was sent and
  stored as \<^verbatim>\<open>null\<close>), and an upsert that inserts applies the defaults of the schema. The
  repository fixes no version, so the version is a parameter; \<open>Mongoose6\<close> stands for 6 and
  later.
\<close>

datatype odm = Mongoose5 | Mongoose6

text \<open>
  What the runtime gives a handler: \<open>now\<close> is what \<^verbatim>\<open>new Date()\<close> reads during the request
  (the few readings one handler takes are one instant); \<open>LocalTZA t isUTC\<close> is the offset
  of the server's local time from UTC in milliseconds, at the UTC instant \<open>t\<close> when
  \<open>isUTC\<close> holds and at the local time \<open>t\<close> otherwise, as in the language standard;
  \<open>mongoose\<close> is the version of the mapper, and \<open>twelveByteIds\<close> tells whether the
  driver casts a string of 12 characters to an ObjectId.
\<close>

record env =
  now :: date
  LocalTZA :: "int \<Rightarrow> bool \<Rightarrow> int"
  mongoose :: odm
  twelveByteIds :: bool

definition LocalTime :: "env \<Rightarrow> date \<Rightarrow> int" where
  "LocalTime e t = t + LocalTZA e t True"

definition UTC :: "env \<Rightarrow> int \<Rightarrow> date" where
  "UTC e t = t - LocalTZA e t False"

definition MakeDay :: "int \<Rightarrow> int \<Rightarrow> int \<Rightarrow> int" where
  "MakeDay year month dt = daysFromCivil (year + month div 12) (month mod 12 + 1) 1 + dt - 1"

text \<open>
  \<^verbatim>\<open>new Date().setHours(h, mi, s, ms)\<close>, \<^verbatim>\<open>d.setDate(d.getDate() - 30)\<close> and
  \<^verbatim>\<open>d.setMonth(d.getMonth() - 12)\<close> for \<^verbatim>\<open>d = new Date()\<close>: each takes the fields of the
  local time, replaces some, and converts the result back.
\<close>

definition setHours :: "env \<Rightarrow> int \<Rightarrow> int \<Rightarrow> int \<Rightarrow> int \<Rightarrow> date" where
  "setHours e h mi s ms =
     UTC e (Day (LocalTime e (now e)) * msPerDay + MakeTime h mi s ms)"

definition thirtyDaysAgo :: "env \<Rightarrow> date" where
  "thirtyDaysAgo e =
     (let t = LocalTime e (now e);
          (y, m, d) = civilFromDays (Day t)
      in UTC e (MakeDay y (m - 1) (d - 30) * msPerDay + TimeWithinDay t))"

definition twelveMonthsAgo :: "env \<Rightarrow> date" where
  "twelveMonthsAgo e =
     (let t = LocalTime e (now e);
          (y, m, d) = civilFromDays (Day t)
      in UTC e (MakeDay y (m - 1 - 12) d * msPerDay + TimeWithinDay t))"

subsection \<open>Aggregation stages\<close>

text \<open>
  \<^verbatim>\<open>{ $group: { _id: key, count: { $sum: 1 } } }\<close>: one group for each distinct key, with the
  number of documents that carry it. The database fixes no order of the groups; the
  embedding takes the order of \<open>remdups\<close>, and no property below depends on it.
\<close>

definition groupCount :: "'k list \<Rightarrow> ('k \<times> nat) list" where
  "groupCount ks = map (\<lambda>k. (k, count_list ks k)) (remdups ks)"

text \<open>
  \<^verbatim>\<open>{ $sort: { count: -1 } }\<close>: the documents by descending count, the only sort key. The
  database fixes no order among documents of equal count; the embedding keeps them in
  the order in which they arrive, and no property below depends on it.
\<close>

definition sortByCountDesc :: "('k \<times> nat) list \<Rightarrow> ('k \<times> nat) list" where
  "sortByCountDesc gs = sort_key (\<lambda>g. - int (snd g)) gs"

text \<open>\<^verbatim>\<open>$avg\<close> over the numeric values of a group; \<^verbatim>\<open>null\<close> when there is none.\<close>

definition avg :: "rat option list \<Rightarrow> rat option" where
  "avg vs = (let xs = List.map_filter id vs
             in if xs = [] then None else Some (sum_list xs / of_nat (length xs)))"

text \<open>\<^verbatim>\<open>$sum\<close> over the numeric values of a group.\<close>

definition sumNum :: "rat option list \<Rightarrow> rat" where
  "sumNum vs = sum_list (List.map_filter id vs)"

subsection \<open>Collections\<close>

record user =
  user_id :: objectId
  user_name :: string
  user_role :: string
  specialty :: "string option"
  license_number :: "string option"

record patient =
  patient_id :: objectId
  patient_doctor_id :: "objectId option"
  first_name :: string
  last_name :: string
  medical_record_number :: "string option"
  patient_created_at :: date

record analysis =
  analysis_doctor_id :: objectId
  confidence_score :: "rat option"
  condition_detected :: "string option"
  severity_level :: "string option"
  voice_consultation_duration :: "rat option"
  analysis_created_at :: date

record performance =
  model_version :: "string option"
  accuracy_rate :: "rat option"
  precision_rate :: "rat option"
  recall_rate :: "rat option"
  f1_score :: "rat option"
  total_predictions :: "rat option"
  correct_predictions :: "rat option"
  evaluation_date :: date
  created_at :: "date option"

record db =
  User :: "user list"
  Patient :: "patient list"
  RetinalAnalysis :: "analysis list"
  AIModelPerformance :: "performance list"

subsection \<open>Requests, responses and the middlewares\<close>

text \<open>
  The payload of a verified token, \<^verbatim>\<open>{ userId, email, role }\<close>. The login signs
  \<^verbatim>\<open>userId: user._id\<close>, so \<open>userId\<close> is an ObjectId and \<^verbatim>\<open>req.user.userId\<close>, read from the
  token, is its string \<open>hexString (userId u)\<close>.
\<close>

record jwt_user =
  userId :: objectId
  role :: string

text \<open>
  What the \<^verbatim>\<open>Authorization\<close> header holds: no token, a token that \<^verbatim>\<open>jwt.verify\<close> rejects,
  or a token that verifies to a payload.
\<close>

datatype credentials = NoToken | InvalidToken | Verified jwt_user

datatype 'a response = Fail nat string | Success 'a

fun status :: "'a response \<Rightarrow> nat" where
  "status (Fail s m) = s"
| "status (Success b) = 200"

text \<open>
  A middleware either sends an error response (status and message) or calls \<^verbatim>\<open>next()\<close>;
  \<open>authenticateToken\<close> then has set \<^verbatim>\<open>req.user\<close> to the payload of the token.
\<close>

definition authenticateToken :: "credentials \<Rightarrow> (nat \<times> string) + jwt_user" where
  "authenticateToken c =
     (case c of
        NoToken \<Rightarrow> Inl (401, ''Access token required'')
      | InvalidToken \<Rightarrow> Inl (403, ''Invalid or expired token'')
      | Verified u \<Rightarrow> Inr u)"

definition requireRole :: "string list \<Rightarrow> jwt_user \<Rightarrow> (nat \<times> string) option" where
  "requireRole roles u =
     (if role u \<in> set roles then None else Some (403, ''Insufficient permissions''))"

text \<open>JavaScript truthiness of an optional string and of an optional number.\<close>

definition falsyString :: "string option \<Rightarrow> bool" where
  "falsyString s = (case s of None \<Rightarrow> True | Some v \<Rightarrow> v = [])"

definition falsyNumber :: "rat option \<Rightarrow> bool" where
  "falsyNumber x = (case x of None \<Rightarrow> True | Some v \<Rightarrow> v = 0)"

text \<open>
  The role-derived entry of the queries:
  \<^verbatim>\<open>if (req.user.role === 'doctor') query.doctor_id = req.user.userId\<close>; the value is the
  string of the token, the entry is absent for the other roles.
\<close>

definition doctorFilter :: "jwt_user \<Rightarrow> string option" where
  "doctorFilter u = (if role u = ''doctor'' then Some (hexString (userId u)) else None)"

text \<open>
  The entry in a query that is cast (\<^verbatim>\<open>countDocuments\<close>, \<^verbatim>\<open>find\<close>, \<^verbatim>\<open>findOne\<close>): the string
  becomes an ObjectId, or the cast fails (\<open>None\<close>).
\<close>

datatype idFilter = AnyId | IsId objectId

definition castFilter :: "env \<Rightarrow> string option \<Rightarrow> idFilter option" where
  "castFilter e f =
     (case f of
        None \<Rightarrow> Some AnyId
      | Some s \<Rightarrow> map_option IsId (castObjectId (twelveByteIds e) s))"

fun matchesId :: "idFilter \<Rightarrow> objectId option \<Rightarrow> bool" where
  "matchesId AnyId i = True"
| "matchesId (IsId k) i = (i = Some k)"

text \<open>
  The same entry in the \<^verbatim>\<open>$match\<close> stage of an aggregation, where it stays the string it
  is and is compared with the stored ObjectId as one value with another.
\<close>

definition matchStage :: "string option \<Rightarrow> objectId \<Rightarrow> bool" where
  "matchStage f i = (case f of None \<Rightarrow> True | Some s \<Rightarrow> BsonObjectId i = BsonString s)"

subsection \<open>GET /overview\<close>

record top_doctor =
  doctor_name :: string
  top_specialty :: "string option"
  analysis_count :: nat

record model_summary =
  summary_model_version :: "string option"
  avg_accuracy :: "rat option"
  summary_total_predictions :: rat
  last_evaluation :: date

record overview =
  totalPatients :: nat
  totalAnalyses :: nat
  recentAnalyses :: nat
  conditionDistribution :: "(string \<times> nat) list"
  severityDistribution :: "(string \<times> nat) list"
  monthlyTrends :: "(string \<times> nat) list"
  averageConfidence :: string
  topDoctors :: "top_doctor list option"
  aiModelPerformance :: "model_summary list option"

text \<open>
  The condition pipeline: \<^verbatim>\<open>$match\<close> on a non-null condition (and, for a doctor, on
  \<^verbatim>\<open>doctor_id\<close> with the string of the token), \<^verbatim>\<open>$group\<close> with a count, \<^verbatim>\<open>$sort\<close> by
  descending count, \<^verbatim>\<open>$project\<close> to the pair \<open>(condition_detected, count)\<close>. The severity
  pipeline is the same on \<open>severity_level\<close>.
\<close>

definition conditionPipeline :: "string option \<Rightarrow> analysis list \<Rightarrow> (string \<times> nat) list" where
  "conditionPipeline f as =
     sortByCountDesc (groupCount (List.map_filter condition_detected
       (filter (\<lambda>a. matchStage f (analysis_doctor_id a)) as)))"

definition severityPipeline :: "string option \<Rightarrow> analysis list \<Rightarrow> (string \<times> nat) list" where
  "severityPipeline f as =
     sortByCountDesc (groupCount (List.map_filter severity_level
       (filter (\<lambda>a. matchStage f (analysis_doctor_id a)) as)))"

text \<open>The \<^verbatim>\<open>$project\<close> stage of the trend pipeline: year, hyphen, month with a leading zero below 10.\<close>

definition monthLabel :: "int \<Rightarrow> int \<Rightarrow> string" where
  "monthLabel y m =
     toString y @ ''-'' @ (if m < 10 then ''0'' @ toString m else toString m)"

definition trendPipeline :: "env \<Rightarrow> string option \<Rightarrow> analysis list \<Rightarrow> (string \<times> nat) list" where
  "trendPipeline e f as =
     map (\<lambda>g. (monthLabel (fst (fst g)) (snd (fst g)), snd g))
       (sort_key fst
         (groupCount (map (\<lambda>a. (yearOf (analysis_created_at a), monthOf (analysis_created_at a)))
           (filter (\<lambda>a. twelveMonthsAgo e \<le> analysis_created_at a
                        \<and> matchStage f (analysis_doctor_id a)) as))))"

text \<open>
  The confidence pipeline groups every matching document under \<^verbatim>\<open>_id: null\<close>: its result
  has one document with the average, or none when nothing matches.
\<close>

definition confidencePipeline :: "string option \<Rightarrow> analysis list \<Rightarrow> rat option list" where
  "confidencePipeline f as =
     (let cs = filter (\<lambda>a. confidence_score a \<noteq> None \<and> matchStage f (analysis_doctor_id a)) as
      in if cs = [] then [] else [avg (map confidence_score cs)])"

text \<open>
  \<^verbatim>\<open>confidenceStats.length > 0 ? parseFloat(confidenceStats[0].average || 0).toFixed(4) : '0.0000'\<close>
\<close>

definition formatAverage :: "rat option list \<Rightarrow> string" where
  "formatAverage confidenceStats =
     (case confidenceStats of
        [] \<Rightarrow> ''0.0000''
      | a # _ \<Rightarrow> toFixed 4 (case a of None \<Rightarrow> 0 | Some v \<Rightarrow> v))"

text \<open>
  The leaderboard: every analysis grouped by its doctor, joined with the users of that id
  (\<^verbatim>\<open>$lookup\<close> and \<^verbatim>\<open>$unwind\<close>, both on ObjectIds), kept when the user is a doctor, sorted by
  descending count and cut to 10.
\<close>

definition topDoctorsPipeline :: "db \<Rightarrow> top_doctor list" where
  "topDoctorsPipeline d =
     take 10
       (sort_key (\<lambda>t. - int (analysis_count t))
         (map (\<lambda>(doc, n). \<lparr>doctor_name = user_name doc, top_specialty = specialty doc,
                            analysis_count = n\<rparr>)
           (filter (\<lambda>(doc, n). user_role doc = ''doctor'')
             (concat (map (\<lambda>(did, n). map (\<lambda>doc. (doc, n))
                                          (filter (\<lambda>x. user_id x = did) (User d)))
               (groupCount (map analysis_doctor_id (RetinalAnalysis d))))))))"

definition maxDate :: "date list \<Rightarrow> date" where
  "maxDate ds = (case ds of [] \<Rightarrow> 0 | x # xs \<Rightarrow> fold max xs x)"

definition aiModelPerformancePipeline :: "db \<Rightarrow> model_summary list" where
  "aiModelPerformancePipeline d =
     sort_key (\<lambda>s. - last_evaluation s)
       (map (\<lambda>v. let rows = filter (\<lambda>r. model_version r = v) (AIModelPerformance d)
                 in \<lparr>summary_model_version = v,
                     avg_accuracy = avg (map accuracy_rate rows),
                     summary_total_predictions = sumNum (map total_predictions rows),
                     last_evaluation = maxDate (map evaluation_date rows)\<rparr>)
         (remdups (map model_version (AIModelPerformance d))))"

text \<open>
  The body of the handler once the count queries are cast: the three counts use the cast
  filter \<open>q\<close>, the four pipelines the string entry of \<open>doctorFilter\<close>.
\<close>

definition overviewAnalytics :: "env \<Rightarrow> db \<Rightarrow> jwt_user \<Rightarrow> idFilter \<Rightarrow> overview" where
  "overviewAnalytics e d u q =
     \<lparr>totalPatients = length (filter (\<lambda>p. matchesId q (patient_doctor_id p)) (Patient d)),
      totalAnalyses =
        length (filter (\<lambda>a. matchesId q (Some (analysis_doctor_id a))) (RetinalAnalysis d)),
      recentAnalyses =
        length (filter (\<lambda>a. thirtyDaysAgo e \<le> analysis_created_at a
                            \<and> matchesId q (Some (analysis_doctor_id a))) (RetinalAnalysis d)),
      conditionDistribution = conditionPipeline (doctorFilter u) (RetinalAnalysis d),
      severityDistribution = severityPipeline (doctorFilter u) (RetinalAnalysis d),
      monthlyTrends = trendPipeline e (doctorFilter u) (RetinalAnalysis d),
      averageConfidence = formatAverage (confidencePipeline (doctorFilter u) (RetinalAnalysis d)),
      topDoctors = (if role u = ''admin'' then Some (topDoctorsPipeline d) else None),
      aiModelPerformance =
        (if role u = ''admin'' then Some (aiModelPerformancePipeline d) else None)\<rparr>"

definition getOverview :: "env \<Rightarrow> db \<Rightarrow> credentials \<Rightarrow> overview response" where
  "getOverview e d c =
     (case authenticateToken c of
        Inl (s, m) \<Rightarrow> Fail s m
      | Inr u \<Rightarrow>
          (case requireRole [''admin'', ''doctor''] u of
             Some (s, m) \<Rightarrow> Fail s m
           | None \<Rightarrow>
               (case castFilter e (doctorFilter u) of
                  None \<Rightarrow> Fail 500 ''Failed to fetch analytics overview''
                | Some q \<Rightarrow> Success (overviewAnalytics e d u q))))"

subsection \<open>GET /doctor/:doctorId?\<close>

record doctor_info =
  info_id :: objectId
  info_name :: string
  info_specialty :: "string option"
  info_license_number :: "string option"

record patient_summary =
  summary_id :: objectId
  summary_first_name :: string
  summary_last_name :: string
  summary_medical_record_number :: "string option"
  summary_created_at :: date

record performance_metrics =
  total_analyses :: nat
  metrics_avg_confidence :: "rat option"
  avg_consultation_time :: "rat option"
  severe_cases :: nat
  moderate_cases :: nat
  mild_cases :: nat

record doctor_analytics =
  doctor :: doctor_info
  doctorTotalPatients :: nat
  doctorTotalAnalyses :: nat
  doctorRecentAnalyses :: nat
  doctorConditionDistribution :: "(string \<times> nat) list"
  doctorAverageConfidence :: string
  dailyAnalyses :: "(string \<times> nat) list"
  recentPatients :: "patient_summary list"
  performanceMetrics :: "performance_metrics option"

text \<open>
  \<^verbatim>\<open>User.findOne({ _id: doctorId, role: 'doctor' }).select('_id name specialty license_number')\<close>,
  once \<open>doctorId\<close> is cast to the ObjectId \<open>i\<close>.
\<close>

definition findDoctor :: "db \<Rightarrow> objectId \<Rightarrow> doctor_info option" where
  "findDoctor d i =
     map_option (\<lambda>x. \<lparr>info_id = user_id x, info_name = user_name x,
                       info_specialty = specialty x, info_license_number = license_number x\<rparr>)
       (find (\<lambda>x. user_id x = i \<and> user_role x = ''doctor'') (User d))"

definition countSeverity :: "string \<Rightarrow> analysis list \<Rightarrow> nat" where
  "countSeverity s as = length (filter (\<lambda>a. severity_level a = Some s) as)"

text \<open>
  The metrics that the handler collects once the doctor is found. \<open>doctorId\<close> is the string
  of the request and \<open>i\<close> the ObjectId it is cast to: the counts and the list of patients
  are cast queries (\<open>own\<close>, \<open>ownPatients\<close>, \<open>recent\<close>), the four aggregations match
  \<^verbatim>\<open>doctor_id\<close> with the string (\<open>matched\<close>).
\<close>

definition doctorAnalytics ::
  "env \<Rightarrow> db \<Rightarrow> string \<Rightarrow> objectId \<Rightarrow> doctor_info \<Rightarrow> doctor_analytics" where
  "doctorAnalytics e d doctorId i doc =
     (let own = filter (\<lambda>a. analysis_doctor_id a = i) (RetinalAnalysis d);
          ownPatients = filter (\<lambda>p. patient_doctor_id p = Some i) (Patient d);
          recent = filter (\<lambda>a. thirtyDaysAgo e \<le> analysis_created_at a) own;
          matched = filter (\<lambda>a. matchStage (Some doctorId) (analysis_doctor_id a))
                      (RetinalAnalysis d);
          scored = filter (\<lambda>a. confidence_score a \<noteq> None) matched;
          matchedRecent = filter (\<lambda>a. thirtyDaysAgo e \<le> analysis_created_at a) matched
      in \<lparr>doctor = doc,
          doctorTotalPatients = length ownPatients,
          doctorTotalAnalyses = length own,
          doctorRecentAnalyses = length recent,
          doctorConditionDistribution =
            sortByCountDesc (groupCount (List.map_filter condition_detected matched)),
          doctorAverageConfidence =
            formatAverage (if scored = [] then [] else [avg (map confidence_score scored)]),
          dailyAnalyses =
            sort_key fst
              (groupCount (map (\<lambda>a. dateToString (analysis_created_at a)) matchedRecent)),
          recentPatients =
            take 10 (sort_key (\<lambda>p. - summary_created_at p)
              (map (\<lambda>p. \<lparr>summary_id = patient_id p, summary_first_name = first_name p,
                          summary_last_name = last_name p,
                          summary_medical_record_number = medical_record_number p,
                          summary_created_at = patient_created_at p\<rparr>) ownPatients)),
          performanceMetrics =
            (if matched = [] then None
             else Some \<lparr>total_analyses = length matched,
                        metrics_avg_confidence = avg (map confidence_score matched),
                        avg_consultation_time = avg (map voice_consultation_duration matched),
                        severe_cases = countSeverity ''severe'' matched,
                        moderate_cases = countSeverity ''moderate'' matched,
                        mild_cases = countSeverity ''mild'' matched\<rparr>)\<rparr>)"

text \<open>
  The handler from \<^verbatim>\<open>// Check permissions\<close> on, for the doctor id that has been settled: the
  comparison of the two strings, then the cast query for the doctor, whose \<^verbatim>\<open>CastError\<close>
  the \<^verbatim>\<open>catch\<close> of the handler answers.
\<close>

definition checkedDoctorAnalytics ::
  "env \<Rightarrow> db \<Rightarrow> jwt_user \<Rightarrow> string \<Rightarrow> doctor_analytics response" where
  "checkedDoctorAnalytics e d u doctorId =
     (if role u = ''doctor'' \<and> doctorId \<noteq> hexString (userId u)
      then Fail 403 ''Access denied to other doctor analytics''
      else case castObjectId (twelveByteIds e) doctorId of
             None \<Rightarrow> Fail 500 ''Failed to fetch doctor analytics''
           | Some i \<Rightarrow>
               (case findDoctor d i of
                  None \<Rightarrow> Fail 404 ''Doctor not found''
                | Some doc \<Rightarrow> Success (doctorAnalytics e d doctorId i doc)))"

text \<open>
  The route has \<open>authenticateToken\<close> as its only middleware. The parameter is optional;
  \<^verbatim>\<open>!doctorId\<close> holds when it is missing or empty.
\<close>

definition getDoctorAnalytics ::
  "env \<Rightarrow> db \<Rightarrow> credentials \<Rightarrow> string option \<Rightarrow> doctor_analytics response" where
  "getDoctorAnalytics e d c param =
     (case authenticateToken c of
        Inl (s, m) \<Rightarrow> Fail s m
      | Inr u \<Rightarrow>
          (case param of
             None \<Rightarrow>
               if role u \<noteq> ''doctor''
               then Fail 400 ''Doctor ID is required for non-doctor users''
               else checkedDoctorAnalytics e d u (hexString (userId u))
           | Some doctorId \<Rightarrow>
               if doctorId = []
               then (if role u \<noteq> ''doctor''
                     then Fail 400 ''Doctor ID is required for non-doctor users''
                     else checkedDoctorAnalytics e d u (hexString (userId u)))
               else checkedDoctorAnalytics e d u doctorId))"

subsection \<open>GET /ai-performance\<close>

record overall_stats =
  overall_total_predictions :: nat
  avg_confidence :: "rat option"
  high_confidence :: nat
  medium_confidence :: nat
  low_confidence :: nat

record condition_stats =
  stats_condition_detected :: string
  total_cases :: nat
  stats_avg_confidence :: "rat option"
  min_confidence :: rat
  max_confidence :: rat

record monthly_stats =
  stats_month :: string
  monthly_total_predictions :: nat
  monthly_avg_confidence :: "rat option"

record ai_performance =
  overallPerformance :: "overall_stats option"
  conditionPerformance :: "condition_stats list"
  performanceMonthlyTrends :: "monthly_stats list"
  modelVersions :: "performance list"

text \<open>
  The first pipeline: every analysis with a non-null score, grouped under \<^verbatim>\<open>_id: null\<close>,
  with three conditional sums. No matching analysis gives no group.
\<close>

definition overallStats :: "analysis list \<Rightarrow> overall_stats list" where
  "overallStats as =
     (let xs = List.map_filter confidence_score as
      in if xs = [] then []
         else [\<lparr>overall_total_predictions = length xs,
                avg_confidence = avg (map Some xs),
                high_confidence = length (filter (\<lambda>x. x \<ge> 9 / 10) xs),
                medium_confidence = length (filter (\<lambda>x. x \<ge> 7 / 10 \<and> x < 9 / 10) xs),
                low_confidence = length (filter (\<lambda>x. x < 7 / 10) xs)\<rparr>])"

definition foldMin :: "rat list \<Rightarrow> rat" where
  "foldMin xs = (case xs of [] \<Rightarrow> 0 | x # ys \<Rightarrow> fold min ys x)"

definition foldMax :: "rat list \<Rightarrow> rat" where
  "foldMax xs = (case xs of [] \<Rightarrow> 0 | x # ys \<Rightarrow> fold max ys x)"

definition conditionPerformancePipeline :: "analysis list \<Rightarrow> condition_stats list" where
  "conditionPerformancePipeline as =
     (let docs = List.map_filter
                   (\<lambda>a. case (condition_detected a, confidence_score a) of
                           (Some c, Some x) \<Rightarrow> Some (c, x) | _ \<Rightarrow> None) as
      in sort_key (\<lambda>s. - int (total_cases s))
           (map (\<lambda>c. let xs = map snd (filter (\<lambda>p. fst p = c) docs)
                     in \<lparr>stats_condition_detected = c, total_cases = length xs,
                         stats_avg_confidence = avg (map Some xs),
                         min_confidence = foldMin xs, max_confidence = foldMax xs\<rparr>)
             (remdups (map fst docs))))"

definition monthlyPerformancePipeline :: "env \<Rightarrow> analysis list \<Rightarrow> monthly_stats list" where
  "monthlyPerformancePipeline e as =
     (let docs = filter (\<lambda>a. twelveMonthsAgo e \<le> analysis_created_at a
                             \<and> confidence_score a \<noteq> None) as;
          key = (\<lambda>a. (yearOf (analysis_created_at a), monthOf (analysis_created_at a)))
      in map (\<lambda>k. let grp = filter (\<lambda>a. key a = k) docs
                  in \<lparr>stats_month = monthLabel (fst k) (snd k),
                      monthly_total_predictions = length grp,
                      monthly_avg_confidence = avg (map confidence_score grp)\<rparr>)
           (sort_key id (remdups (map key docs))))"

definition getAiPerformance :: "env \<Rightarrow> db \<Rightarrow> credentials \<Rightarrow> ai_performance response" where
  "getAiPerformance e d c =
     (case authenticateToken c of
        Inl (s, m) \<Rightarrow> Fail s m
      | Inr u \<Rightarrow>
          (case requireRole [''admin''] u of
             Some (s, m) \<Rightarrow> Fail s m
           | None \<Rightarrow>
               Success
                 \<lparr>overallPerformance =
                    (case overallStats (RetinalAnalysis d) of [] \<Rightarrow> None | s # _ \<Rightarrow> Some s),
                  conditionPerformance = conditionPerformancePipeline (RetinalAnalysis d),
                  performanceMonthlyTrends = monthlyPerformancePipeline e (RetinalAnalysis d),
                  modelVersions =
                    sort_key (\<lambda>r. - evaluation_date r) (AIModelPerformance d)\<rparr>))"

subsection \<open>POST /ai-performance and the broadcaster\<close>

record performance_body =
  modelVersion :: "string option"
  accuracyRate :: "rat option"
  precisionRate :: "rat option"
  recallRate :: "rat option"
  f1Score :: "rat option"
  totalPredictions :: "rat option"
  correctPredictions :: "rat option"

text \<open>
  A message on a socket: the event type and, for \<^verbatim>\<open>ai_performance_updated\<close>, the five
  fields \<^verbatim>\<open>{ modelVersion, accuracyRate, precisionRate, recallRate, f1Score }\<close>.
\<close>

datatype message =
  Message string "string option" "rat option" "rat option" "rat option" "rat option"

text \<open>An entry of \<^verbatim>\<open>activeConnections\<close>: the socket, with what has been sent on it, and its user.\<close>

record connection =
  connection_user :: jwt_user
  readyStateOpen :: bool
  sent :: "message list"

record server =
  database :: db
  activeConnections :: "connection list"

definition broadcastUpdate :: "message \<Rightarrow> string option \<Rightarrow> connection list \<Rightarrow> connection list" where
  "broadcastUpdate msg userRole conns =
     map (\<lambda>ws. if readyStateOpen ws
                then (if falsyString userRole then ws\<lparr>sent := sent ws @ [msg]\<rparr>
                      else if Some (role (connection_user ws)) = userRole
                           then ws\<lparr>sent := sent ws @ [msg]\<rparr>
                           else ws)
                else ws) conns"

text \<open>
  The filter of the upsert: the model version, and an evaluation date from
  \<^verbatim>\<open>setHours(0, 0, 0, 0)\<close> (inclusive) to \<^verbatim>\<open>setHours(23, 59, 59, 999)\<close> (exclusive).
\<close>

definition performanceFilter :: "env \<Rightarrow> string \<Rightarrow> performance \<Rightarrow> bool" where
  "performanceFilter e v r =
     (model_version r = Some v
      \<and> setHours e 0 0 0 0 \<le> evaluation_date r
      \<and> evaluation_date r < setHours e 23 59 59 999)"

text \<open>
  One key of the update document on one field of a row: a value is stored; \<^verbatim>\<open>undefined\<close> is
  stored as \<^verbatim>\<open>null\<close> by the mapper before version 6 and is dropped, leaving the field as
  it is, from version 6 on.
\<close>

definition setField :: "odm \<Rightarrow> 'a option \<Rightarrow> 'a option \<Rightarrow> 'a option" where
  "setField v new old =
     (case new of
        Some x \<Rightarrow> Some x
      | None \<Rightarrow> (case v of Mongoose5 \<Rightarrow> None | Mongoose6 \<Rightarrow> old))"

text \<open>The update document of the handler, applied to a row.\<close>

definition performanceUpdate ::
  "env \<Rightarrow> string \<Rightarrow> performance_body \<Rightarrow> performance \<Rightarrow> performance" where
  "performanceUpdate e v b r =
     \<lparr>model_version = Some v,
      accuracy_rate = setField (mongoose e) (accuracyRate b) (accuracy_rate r),
      precision_rate = setField (mongoose e) (precisionRate b) (precision_rate r),
      recall_rate = setField (mongoose e) (recallRate b) (recall_rate r),
      f1_score = setField (mongoose e) (f1Score b) (f1_score r),
      total_predictions = setField (mongoose e) (totalPredictions b) (total_predictions r),
      correct_predictions = setField (mongoose e) (correctPredictions b) (correct_predictions r),
      evaluation_date = now e,
      created_at = created_at r\<rparr>"

text \<open>
  The document an upsert starts from when no row matches: the model version of the filter
  and, from version 6 of the mapper on, the defaults of the schema (\<^verbatim>\<open>total_predictions\<close> and
  \<^verbatim>\<open>correct_predictions\<close> 0, \<^verbatim>\<open>created_at\<close> the time of the insert). The \<^verbatim>\<open>_id\<close> of a row is
  left out of the record.
\<close>

definition upsertBase :: "env \<Rightarrow> string \<Rightarrow> performance" where
  "upsertBase e v =
     \<lparr>model_version = Some v,
      accuracy_rate = None,
      precision_rate = None,
      recall_rate = None,
      f1_score = None,
      total_predictions = (case mongoose e of Mongoose5 \<Rightarrow> None | Mongoose6 \<Rightarrow> Some 0),
      correct_predictions = (case mongoose e of Mongoose5 \<Rightarrow> None | Mongoose6 \<Rightarrow> Some 0),
      evaluation_date = now e,
      created_at = (case mongoose e of Mongoose5 \<Rightarrow> None | Mongoose6 \<Rightarrow> Some (now e))\<rparr>"

text \<open>
  \<^verbatim>\<open>findOneAndUpdate(filter, update, { upsert: true, new: true })\<close>: the update is applied to
  the first document that matches the filter; when none matches, it is applied to the
  base document, which is inserted.
\<close>

fun findOneAndUpdate ::
  "(performance \<Rightarrow> bool) \<Rightarrow> (performance \<Rightarrow> performance) \<Rightarrow> performance
     \<Rightarrow> performance list \<Rightarrow> performance list" where
  "findOneAndUpdate f upd base [] = [upd base]"
| "findOneAndUpdate f upd base (r # rs) =
     (if f r then upd r # rs else r # findOneAndUpdate f upd base rs)"

definition postAiPerformance ::
  "env \<Rightarrow> server \<Rightarrow> credentials \<Rightarrow> performance_body \<Rightarrow> string response \<times> server" where
  "postAiPerformance e st c b =
     (case authenticateToken c of
        Inl (s, m) \<Rightarrow> (Fail s m, st)
      | Inr u \<Rightarrow>
          (case requireRole [''admin''] u of
             Some (s, m) \<Rightarrow> (Fail s m, st)
           | None \<Rightarrow>
               (case modelVersion b of
                  None \<Rightarrow> (Fail 400 ''Model version and accuracy rate are required'', st)
                | Some v \<Rightarrow>
                    if v = [] then (Fail 400 ''Model version and accuracy rate are required'', st)
                    else if falsyNumber (accuracyRate b)
                    then (Fail 400 ''Model version and accuracy rate are required'', st)
                    else
                      (Success ''AI model performance updated successfully'',
                       \<lparr>database = (database st)
                          \<lparr>AIModelPerformance :=
                             findOneAndUpdate (performanceFilter e v) (performanceUpdate e v b)
                               (upsertBase e v) (AIModelPerformance (database st))\<rparr>,
                        activeConnections =
                          broadcastUpdate
                            (Message ''ai_performance_updated'' (modelVersion b) (accuracyRate b)
                               (precisionRate b) (recallRate b) (f1Score b))
                            None (activeConnections st)\<rparr>))))"

section \<open>Notions of the specification and sample data\<close>

text \<open>The month of a label as the specification words it: padded with zeros to two digits.\<close>

definition zeroPad2 :: "int \<Rightarrow> string" where
  "zeroPad2 m = [digitChar (nat m div 10), digitChar (nat m mod 10)]"

text \<open>The scores that the overall statistics range over: those that are not null.\<close>

definition scores :: "db \<Rightarrow> rat list" where
  "scores d = List.map_filter confidence_score (RetinalAnalysis d)"

text \<open>
  The calendar day of a request in the server's local time is the span from
  \<^verbatim>\<open>setHours(0, 0, 0, 0)\<close> to \<^verbatim>\<open>setHours(23, 59, 59, 999)\<close>, both included; \<open>rowsOfDay\<close> are the
  stored rows of one model version whose evaluation date falls into it.
\<close>

definition dayStart :: "env \<Rightarrow> date" where
  "dayStart e = setHours e 0 0 0 0"

definition dayEnd :: "env \<Rightarrow> date" where
  "dayEnd e = setHours e 23 59 59 999"

definition rowsOfDay :: "env \<Rightarrow> string \<Rightarrow> performance list \<Rightarrow> performance list" where
  "rowsOfDay e v rows =
     filter (\<lambda>r. model_version r = Some v
                 \<and> dayStart e \<le> evaluation_date r \<and> evaluation_date r \<le> dayEnd e) rows"

definition storedRows :: "string response \<times> server \<Rightarrow> performance list" where
  "storedRows out = AIModelPerformance (database (snd out))"

text \<open>A row holds the value of every metric that a body supplies.\<close>

definition holds :: "'a option \<Rightarrow> 'a option \<Rightarrow> bool" where
  "holds supplied stored = (case supplied of None \<Rightarrow> True | Some x \<Rightarrow> stored = Some x)"

definition reflects :: "performance_body \<Rightarrow> performance \<Rightarrow> bool" where
  "reflects b r =
     (holds (accuracyRate b) (accuracy_rate r) \<and> holds (precisionRate b) (precision_rate r)
      \<and> holds (recallRate b) (recall_rate r) \<and> holds (f1Score b) (f1_score r)
      \<and> holds (totalPredictions b) (total_predictions r)
      \<and> holds (correctPredictions b) (correct_predictions r))"

text \<open>
  Sample values: clocks of a server on UTC and of one an hour ahead, a doctor with a
  patient and two analyses, callers of each role, request bodies.
\<close>

definition utcAt :: "odm \<Rightarrow> date \<Rightarrow> env" where
  "utcAt v t = \<lparr>now = t, LocalTZA = (\<lambda>_ _. 0), mongoose = v, twelveByteIds = False\<rparr>"

definition aheadAt :: "odm \<Rightarrow> date \<Rightarrow> env" where
  "aheadAt v t =
     \<lparr>now = t, LocalTZA = (\<lambda>_ _. 3600000), mongoose = v, twelveByteIds = False\<rparr>"

definition sampleEnv :: env where
  "sampleEnv = utcAt Mongoose6 1709164800000"

definition laterEnv :: env where
  "laterEnv = utcAt Mongoose6 1709168400000"

definition drAda :: user where
  "drAda = \<lparr>user_id = 1, user_name = ''Ada'', user_role = ''doctor'',
            specialty = Some ''Retina Specialist'', license_number = None\<rparr>"

definition adaInfo :: doctor_info where
  "adaInfo = \<lparr>info_id = 1, info_name = ''Ada'', info_specialty = Some ''Retina Specialist'',
              info_license_number = None\<rparr>"

definition adaPatient :: patient where
  "adaPatient = \<lparr>patient_id = 7, patient_doctor_id = Some 1, first_name = ''Grace'',
                 last_name = ''Hopper'', medical_record_number = Some ''MRN-7'',
                 patient_created_at = 1704067200000\<rparr>"

definition cnvAnalysis :: analysis where
  "cnvAnalysis = \<lparr>analysis_doctor_id = 1, confidence_score = Some (95 / 100),
                  condition_detected = Some ''CNV'', severity_level = Some ''severe'',
                  voice_consultation_duration = None, analysis_created_at = 1704844800000\<rparr>"

definition dmeAnalysis :: analysis where
  "dmeAnalysis = \<lparr>analysis_doctor_id = 1, confidence_score = Some (82 / 100),
                  condition_detected = Some ''DME'', severity_level = Some ''mild'',
                  voice_consultation_duration = None, analysis_created_at = 1707955200000\<rparr>"

definition sampleDb :: db where
  "sampleDb = \<lparr>User = [drAda], Patient = [adaPatient],
               RetinalAnalysis = [cnvAnalysis, dmeAnalysis], AIModelPerformance = []\<rparr>"

definition adaToken :: jwt_user where
  "adaToken = \<lparr>userId = 1, role = ''doctor''\<rparr>"

definition otherDoctorToken :: jwt_user where
  "otherDoctorToken = \<lparr>userId = 9, role = ''doctor''\<rparr>"

definition adminToken :: jwt_user where
  "adminToken = \<lparr>userId = 2, role = ''admin''\<rparr>"

definition patientToken :: jwt_user where
  "patientToken = \<lparr>userId = 3, role = ''patient''\<rparr>"

definition emptyServer :: server where
  "emptyServer = \<lparr>database = \<lparr>User = [], Patient = [], RetinalAnalysis = [],
                                AIModelPerformance = []\<rparr>,
                   activeConnections = []\<rparr>"

definition sampleServer :: server where
  "sampleServer =
     \<lparr>database = sampleDb,
      activeConnections = [\<lparr>connection_user = adminToken, readyStateOpen = True, sent = []\<rparr>]\<rparr>"

definition bodyWith :: "rat \<Rightarrow> rat \<Rightarrow> performance_body" where
  "bodyWith acc tot =
     \<lparr>modelVersion = Some ''v1'', accuracyRate = Some acc, precisionRate = None,
      recallRate = None, f1Score = None, totalPredictions = Some tot,
      correctPredictions = None\<rparr>"

definition adaOverview :: overview where
  "adaOverview = overviewAnalytics sampleEnv sampleDb adaToken (IsId 1)"

definition adminOverview :: overview where
  "adminOverview = overviewAnalytics sampleEnv sampleDb adminToken AnyId"

text \<open>The rows that two updates of version \<open>v1\<close> by an admin leave on an empty store.\<close>

definition twoUpdates :: "env \<Rightarrow> env \<Rightarrow> performance list" where
  "twoUpdates e1 e2 =
     storedRows (postAiPerformance e2
       (snd (postAiPerformance e1 emptyServer (Verified adminToken) (bodyWith (9 / 10) 10)))
       (Verified adminToken) (bodyWith (9 / 10) 20))"

section \<open>Properties\<close>

subsection \<open>ObjectIds and their strings\<close>

lemma hexValue_hexChar_all: "\<forall>d<16. hexValue (hexChar d) = Some d"
  unfolding hexValue_def hexChar_def
  by (simp add: eval_nat_numeral All_less_Suc)

lemma hexValue_hexChar: "d < 16 \<Longrightarrow> hexValue (hexChar d) = Some d"
  using hexValue_hexChar_all by blast

lemma fromHex_append:
  "fromHex acc (xs @ ys) = (case fromHex acc xs of None \<Rightarrow> None | Some a \<Rightarrow> fromHex a ys)"
  by (induction xs arbitrary: acc) (auto split: option.splits)

lemma fromHex_toHex: "fromHex acc (toHex k n) = Some (acc * 16 ^ k + n mod 16 ^ k)"
proof (induction k arbitrary: n)
  case 0
  show ?case by simp
next
  case (Suc k)
  have "n mod 16 < 16" by simp
  then have v: "hexValue (hexChar (n mod 16)) = Some (n mod 16)" by (rule hexValue_hexChar)
  have "16 * (n div 16 mod 16 ^ k) + n mod 16 = n mod (16 * 16 ^ k)"
    by (simp add: mod_mult2_eq)
  then show ?case
    by (simp add: fromHex_append Suc.IH v algebra_simps)
qed

lemma length_toHex: "length (toHex k n) = k"
  by (induction k arbitrary: n) auto

lemma hexString_nonempty: "hexString w \<noteq> []"
proof -
  have "length (hexString w) = 24" by (simp add: hexString_def length_toHex)
  then show ?thesis by auto
qed

text \<open>The cast of the string of an ObjectId gives the ObjectId back, so it never fails.\<close>

lemma castObjectId_hexString: "castObjectId twelve (hexString w) = Some w"
proof -
  have "unat w < 2 ^ 96" using unsigned_less [of w] by simp
  then have "unat w mod 16 ^ 24 = unat w" by simp
  then show ?thesis
    by (simp add: castObjectId_def hexString_def length_toHex fromHex_toHex)
qed

lemma hexString_eq_iff: "hexString a = hexString b \<longleftrightarrow> a = b"
  by (metis castObjectId_hexString [of False] option.inject)


text \<open>
  The cast filter of a caller constrains a doctor to the own id; the string in a
  \<^verbatim>\<open>$match\<close> stage matches no stored ObjectId.
\<close>

lemma castFilter_doctorFilter:
  "castFilter e (doctorFilter u) = Some (if role u = ''doctor'' then IsId (userId u) else AnyId)"
  by (simp add: castFilter_def doctorFilter_def castObjectId_hexString)

lemma matchStage_simps: "matchStage None i = True" "matchStage (Some s) i = False"
  by (simp_all add: matchStage_def)

subsection \<open>Access to the per-doctor analytics\<close>

lemma findDoctor_sample: "findDoctor sampleDb 1 = Some adaInfo"
  by (simp add: findDoctor_def sampleDb_def drAda_def adaInfo_def)

lemma findDoctor_sample_none: "findDoctor sampleDb 9 = None"
  by (simp add: findDoctor_def sampleDb_def drAda_def)


text \<open>
  Claim C1 states that a patient never receives a doctor-analytics payload. The handler
  gives one: the route lacks the role gate of its sibling routes, and a caller with role
  \<open>patient\<close> who names the doctor of the sample data is answered with status 200, the
  doctor's record, the counts and the list of that doctor's patients.
\<close>

theorem patient_reads_doctor_analytics:
  "getDoctorAnalytics sampleEnv sampleDb (Verified patientToken) (Some (hexString 1))
     = Success (doctorAnalytics sampleEnv sampleDb (hexString 1) 1 adaInfo)
   \<and> status (getDoctorAnalytics sampleEnv sampleDb (Verified patientToken) (Some (hexString 1)))
       = 200
   \<and> doctorTotalPatients (doctorAnalytics sampleEnv sampleDb (hexString 1) 1 adaInfo) = 1
   \<and> doctorTotalAnalyses (doctorAnalytics sampleEnv sampleDb (hexString 1) 1 adaInfo) = 2
   \<and> recentPatients (doctorAnalytics sampleEnv sampleDb (hexString 1) 1 adaInfo)
       = [\<lparr>summary_id = 7, summary_first_name = ''Grace'', summary_last_name = ''Hopper'',
           summary_medical_record_number = Some ''MRN-7'',
           summary_created_at = 1704067200000\<rparr>]"
proof -
  have "getDoctorAnalytics sampleEnv sampleDb (Verified patientToken) (Some (hexString 1))
     = Success (doctorAnalytics sampleEnv sampleDb (hexString 1) 1 adaInfo)"
    by (simp add: getDoctorAnalytics_def authenticateToken_def patientToken_def
        hexString_nonempty checkedDoctorAnalytics_def castObjectId_hexString findDoctor_sample)
  moreover have
    "doctorTotalPatients (doctorAnalytics sampleEnv sampleDb (hexString 1) 1 adaInfo) = 1"
    "doctorTotalAnalyses (doctorAnalytics sampleEnv sampleDb (hexString 1) 1 adaInfo) = 2"
    "recentPatients (doctorAnalytics sampleEnv sampleDb (hexString 1) 1 adaInfo)
       = [\<lparr>summary_id = 7, summary_first_name = ''Grace'', summary_last_name = ''Hopper'',
           summary_medical_record_number = Some ''MRN-7'',
           summary_created_at = 1704067200000\<rparr>]"
    by (simp_all add: doctorAnalytics_def Let_def sampleDb_def adaPatient_def cnvAnalysis_def
        dmeAnalysis_def)
  ultimately show ?thesis by simp
qed




text \<open>
  Claim C10: the ownership check comes before the lookup of the doctor. A doctor who asks
  for an id other than their own receives 403 whatever the database holds, so the answer
  does not tell whether that id names a doctor.
\<close>

theorem ownership_precedes_existence:
  assumes "role u = ''doctor''" and "doctorId \<noteq> []" and "doctorId \<noteq> hexString (userId u)"
  shows "getDoctorAnalytics e d (Verified u) (Some doctorId) =
           Fail 403 ''Access denied to other doctor analytics''"
  using assms
  by (simp add: getDoctorAnalytics_def authenticateToken_def checkedDoctorAnalytics_def)

theorem ownership_precedes_existence_witness:
  "findDoctor sampleDb 1 \<noteq> None
   \<and> getDoctorAnalytics sampleEnv sampleDb (Verified otherDoctorToken) (Some (hexString 1)) =
       Fail 403 ''Access denied to other doctor analytics''
   \<and> findDoctor sampleDb 9 = None
   \<and> getDoctorAnalytics sampleEnv sampleDb (Verified adaToken) (Some (hexString 9)) =
       Fail 403 ''Access denied to other doctor analytics''"
  using ownership_precedes_existence [where u = otherDoctorToken and e = sampleEnv
      and d = sampleDb and doctorId = "hexString 1"]
    ownership_precedes_existence [where u = adaToken and e = sampleEnv
      and d = sampleDb and doctorId = "hexString 9"]
  by (simp add: otherDoctorToken_def adaToken_def findDoctor_sample findDoctor_sample_none
      hexString_nonempty hexString_eq_iff)

subsection \<open>Validation of the model-performance update\<close>

text \<open>
  Claim C9: a body whose model version or accuracy rate is missing or falsy (the accuracy
  rate 0 included) leaves the server as it was, whoever calls: no row is written and
  nothing is sent on any socket; and an admin, who passes the role gate of the route, is
  answered 400 with the message of the handler.
\<close>

theorem post_rejects_falsy_input:
  assumes "falsyString (modelVersion b) \<or> falsyNumber (accuracyRate b)"
  shows "snd (postAiPerformance e st c b) = st
     \<and> (role u = ''admin'' \<longrightarrow>
          postAiPerformance e st (Verified u) b =
            (Fail 400 ''Model version and accuracy rate are required'', st))"
proof
  show "snd (postAiPerformance e st c b) = st"
    using assms
    by (auto simp: postAiPerformance_def authenticateToken_def requireRole_def falsyString_def
        split: option.splits credentials.splits)
  show "role u = ''admin'' \<longrightarrow>
          postAiPerformance e st (Verified u) b =
            (Fail 400 ''Model version and accuracy rate are required'', st)"
    using assms
    by (auto simp: postAiPerformance_def authenticateToken_def requireRole_def falsyString_def
        split: option.splits)
qed

theorem post_rejects_falsy_input_witness:
  "snd (postAiPerformance sampleEnv sampleServer (Verified adaToken) (bodyWith 0 10))
     = sampleServer
   \<and> postAiPerformance sampleEnv sampleServer (Verified adminToken) (bodyWith 0 10) =
       (Fail 400 ''Model version and accuracy rate are required'', sampleServer)"
  using post_rejects_falsy_input [where u = adminToken and b = "bodyWith 0 10"
      and e = sampleEnv and st = sampleServer and c = "Verified adaToken"]
  by (simp add: adminToken_def bodyWith_def falsyNumber_def)

subsection \<open>Confidence buckets\<close>

lemma bucket_partition:
  "length (filter (\<lambda>x. x \<ge> hi) xs) + length (filter (\<lambda>x. x \<ge> lo \<and> x < hi) xs)
     + length (filter (\<lambda>x. x < lo) xs) = length (xs :: rat list)" if "lo \<le> hi"
  using that by (induction xs) auto

lemma length_map_filter:
  "length (List.map_filter f xs) = length (filter (\<lambda>x. f x \<noteq> None) xs)"
  by (simp add: List.map_filter_def)

lemma overallStats_empty: "scores d = [] \<Longrightarrow> overallStats (RetinalAnalysis d) = []"
  by (simp add: overallStats_def scores_def)

lemma overallStats_single:
  assumes "scores d \<noteq> []"
  shows "\<exists>s. overallStats (RetinalAnalysis d) = [s]
      \<and> overall_total_predictions s = length (scores d)
      \<and> high_confidence s = length (filter (\<lambda>x. x \<ge> 9 / 10) (scores d))
      \<and> medium_confidence s = length (filter (\<lambda>x. x \<ge> 7 / 10 \<and> x < 9 / 10) (scores d))
      \<and> low_confidence s = length (filter (\<lambda>x. x < 7 / 10) (scores d))"
proof -
  define s where "s = \<lparr>overall_total_predictions = length (scores d),
                avg_confidence = avg (map Some (scores d)),
                high_confidence = length (filter (\<lambda>x. x \<ge> 9 / 10) (scores d)),
                medium_confidence = length (filter (\<lambda>x. x \<ge> 7 / 10 \<and> x < 9 / 10) (scores d)),
                low_confidence = length (filter (\<lambda>x. x < 7 / 10) (scores d))\<rparr>"
  have eq: "overallStats (RetinalAnalysis d) = [s]"
    unfolding overallStats_def Let_def s_def using assms
    by (simp only: scores_def if_False)
  have "overall_total_predictions s = length (scores d)"
    "high_confidence s = length (filter (\<lambda>x. x \<ge> 9 / 10) (scores d))"
    "medium_confidence s = length (filter (\<lambda>x. x \<ge> 7 / 10 \<and> x < 9 / 10) (scores d))"
    "low_confidence s = length (filter (\<lambda>x. x < 7 / 10) (scores d))"
    unfolding s_def overall_stats.select_convs by (rule refl)+
  with eq show ?thesis by blast
qed

lemma getAiPerformance_admin:
  assumes "role u = ''admin''"
  shows "\<exists>r. getAiPerformance e d (Verified u) = Success r
      \<and> overallPerformance r
          = (case overallStats (RetinalAnalysis d) of [] \<Rightarrow> None | s # _ \<Rightarrow> Some s)"
  using assms by (simp add: getAiPerformance_def authenticateToken_def requireRole_def)

text \<open>
  Claim C4: the response of GET /ai-performance to an admin carries overall statistics
  exactly when some analysis has a non-null confidence score; then \<open>total_predictions\<close> is
  the number of these analyses, the three buckets count the scores from 0.9 on, from 0.7
  on and below 0.9, and below 0.7, and the three counts add up to \<open>total_predictions\<close>.
\<close>

theorem confidence_buckets_sum:
  assumes "role u = ''admin''"
  shows "\<exists>r. getAiPerformance e d (Verified u) = Success r
     \<and> length (scores d) = length (filter (\<lambda>a. confidence_score a \<noteq> None) (RetinalAnalysis d))
     \<and> (if scores d = [] then overallPerformance r = None
         else \<exists>s. overallPerformance r = Some s
            \<and> overall_total_predictions s = length (scores d)
            \<and> high_confidence s = length (filter (\<lambda>x. x \<ge> 9 / 10) (scores d))
            \<and> medium_confidence s
                = length (filter (\<lambda>x. x \<ge> 7 / 10 \<and> x < 9 / 10) (scores d))
            \<and> low_confidence s = length (filter (\<lambda>x. x < 7 / 10) (scores d))
            \<and> high_confidence s + medium_confidence s + low_confidence s
                = overall_total_predictions s)"
proof -
  obtain r where r: "getAiPerformance e d (Verified u) = Success r"
    and o: "overallPerformance r
          = (case overallStats (RetinalAnalysis d) of [] \<Rightarrow> None | s # _ \<Rightarrow> Some s)"
    using getAiPerformance_admin [OF assms] by blast
  have len: "length (scores d)
      = length (filter (\<lambda>a. confidence_score a \<noteq> None) (RetinalAnalysis d))"
    unfolding scores_def by (rule length_map_filter)
  have le: "(7 / 10 :: rat) \<le> 9 / 10" by simp
  show ?thesis
  proof (cases "scores d = []")
    case True
    then have "overallPerformance r = None" using o by (simp add: overallStats_empty)
    with r len True show ?thesis by simp
  next
    case False
    then obtain s where s: "overallStats (RetinalAnalysis d) = [s]"
      "overall_total_predictions s = length (scores d)"
      "high_confidence s = length (filter (\<lambda>x. x \<ge> 9 / 10) (scores d))"
      "medium_confidence s = length (filter (\<lambda>x. x \<ge> 7 / 10 \<and> x < 9 / 10) (scores d))"
      "low_confidence s = length (filter (\<lambda>x. x < 7 / 10) (scores d))"
      using overallStats_single by blast
    have "high_confidence s + medium_confidence s + low_confidence s
        = overall_total_predictions s"
      unfolding s(2-5) by (rule bucket_partition [OF le])
    moreover have "overallPerformance r = Some s" using o s(1) by simp
    ultimately have "\<exists>s. overallPerformance r = Some s
            \<and> overall_total_predictions s = length (scores d)
            \<and> high_confidence s = length (filter (\<lambda>x. x \<ge> 9 / 10) (scores d))
            \<and> medium_confidence s
                = length (filter (\<lambda>x. x \<ge> 7 / 10 \<and> x < 9 / 10) (scores d))
            \<and> low_confidence s = length (filter (\<lambda>x. x < 7 / 10) (scores d))
            \<and> high_confidence s + medium_confidence s + low_confidence s
                = overall_total_predictions s"
      using s(2-5) by blast
    with r len False show ?thesis by (simp only: if_False) blast
  qed
qed

lemma scores_sample: "scores sampleDb = [95 / 100, 82 / 100]"
  by (simp add: scores_def sampleDb_def cnvAnalysis_def dmeAnalysis_def List.map_filter_simps)

theorem confidence_buckets_sum_witness:
  "\<exists>r s. getAiPerformance sampleEnv sampleDb (Verified adminToken) = Success r
     \<and> overallPerformance r = Some s
     \<and> overall_total_predictions s = 2
     \<and> high_confidence s = 1 \<and> medium_confidence s = 1 \<and> low_confidence s = 0
     \<and> high_confidence s + medium_confidence s + low_confidence s
         = overall_total_predictions s"
proof -
  have adm: "role adminToken = ''admin''" by (simp add: adminToken_def)
  have ne: "scores sampleDb \<noteq> []" by (simp add: scores_sample)
  have c: "length (scores sampleDb) = 2"
    "length (filter (\<lambda>x. x \<ge> 9 / 10) (scores sampleDb)) = 1"
    "length (filter (\<lambda>x. x \<ge> 7 / 10 \<and> x < 9 / 10) (scores sampleDb)) = 1"
    "length (filter (\<lambda>x. x < 7 / 10) (scores sampleDb)) = 0"
    by (simp_all add: scores_sample)
  from confidence_buckets_sum [OF adm, of sampleEnv sampleDb] ne
  obtain r s where "getAiPerformance sampleEnv sampleDb (Verified adminToken) = Success r"
    "overallPerformance r = Some s"
    "overall_total_predictions s = length (scores sampleDb)"
    "high_confidence s = length (filter (\<lambda>x. x \<ge> 9 / 10) (scores sampleDb))"
    "medium_confidence s = length (filter (\<lambda>x. x \<ge> 7 / 10 \<and> x < 9 / 10) (scores sampleDb))"
    "low_confidence s = length (filter (\<lambda>x. x < 7 / 10) (scores sampleDb))"
    by (simp only: if_False) blast
  then show ?thesis unfolding c by (intro exI [of _ r] exI [of _ s]) simp
qed

subsection \<open>The upsert of the model performance\<close>

lemma findOneAndUpdate_single:
  assumes "\<And>r. P (upd r)" and "\<And>r. f r \<Longrightarrow> P r" and "\<forall>r\<in>set rows. P r \<longrightarrow> f r"
    and "length (filter P rows) \<le> 1"
  shows "\<exists>r. filter P (findOneAndUpdate f upd base rows) = [upd r]"
  using assms(3,4)
proof (induction rows)
  case Nil
  have "filter P (findOneAndUpdate f upd base []) = [upd base]" using assms(1) by simp
  then show ?case by blast
next
  case (Cons r rows)
  show ?case
  proof (cases "f r")
    case True
    then have "P r" by (rule assms(2))
    then have "filter P rows = []" using Cons.prems(2) by simp
    then have "filter P (findOneAndUpdate f upd base (r # rows)) = [upd r]"
      using True assms(1) by simp
    then show ?thesis by blast
  next
    case False
    then have "\<not> P r" using Cons.prems(1) by auto
    then show ?thesis using False Cons by simp
  qed
qed

lemma performanceUpdate_reflects:
  "model_version (performanceUpdate e v b r) = Some v
   \<and> evaluation_date (performanceUpdate e v b r) = now e
   \<and> reflects b (performanceUpdate e v b r)"
  by (simp add: performanceUpdate_def reflects_def holds_def setField_def split: option.splits)

lemma post_success:
  assumes "role u = ''admin''" and "modelVersion b = Some v" and "v \<noteq> []"
    and "\<not> falsyNumber (accuracyRate b)"
  shows "storedRows (postAiPerformance e st (Verified u) b) =
           findOneAndUpdate (performanceFilter e v) (performanceUpdate e v b) (upsertBase e v)
             (AIModelPerformance (database st))"
  using assms
  by (simp add: storedRows_def postAiPerformance_def authenticateToken_def requireRole_def)

lemma post_single_row:
  assumes "role u = ''admin''" and "modelVersion b = Some v" and "v \<noteq> []"
    and "\<not> falsyNumber (accuracyRate b)"
    and "dayStart e \<le> now e" and "now e \<le> dayEnd e"
    and "length (rowsOfDay e v (AIModelPerformance (database st))) \<le> 1"
    and "\<forall>r\<in>set (rowsOfDay e v (AIModelPerformance (database st))).
           evaluation_date r < dayEnd e"
  shows "\<exists>r. rowsOfDay e v (storedRows (postAiPerformance e st (Verified u) b))
           = [performanceUpdate e v b r]"
proof -
  let ?P = "\<lambda>r. model_version r = Some v
                 \<and> dayStart e \<le> evaluation_date r \<and> evaluation_date r \<le> dayEnd e"
  have "\<exists>r. filter ?P (findOneAndUpdate (performanceFilter e v) (performanceUpdate e v b)
          (upsertBase e v) (AIModelPerformance (database st))) = [performanceUpdate e v b r]"
  proof (rule findOneAndUpdate_single)
    show "\<And>r. ?P (performanceUpdate e v b r)"
      using assms(5,6) by (simp add: performanceUpdate_def)
    show "\<And>r. performanceFilter e v r \<Longrightarrow> ?P r"
      by (simp add: performanceFilter_def dayStart_def dayEnd_def)
    show "\<forall>r\<in>set (AIModelPerformance (database st)). ?P r \<longrightarrow> performanceFilter e v r"
      using assms(8) by (auto simp: rowsOfDay_def performanceFilter_def dayStart_def dayEnd_def)
    show "length (filter ?P (AIModelPerformance (database st))) \<le> 1"
      using assms(7) by (simp add: rowsOfDay_def)
  qed
  then show ?thesis using post_success [OF assms(1-4)] by (simp add: rowsOfDay_def)
qed

text \<open>
  Claim C5, amended: two updates by an admin, with the same non-empty model version and
  accuracy rates that are not falsy, on the same calendar day of the server's local time
  (the day from \<^verbatim>\<open>setHours(0, 0, 0, 0)\<close> to \<^verbatim>\<open>setHours(23, 59, 59, 999)\<close> is the same for
  both), the first before the last millisecond of that day, on a store that holds at most
  one row of that version for the day and none dated in its last millisecond, leave
  exactly one row of that version for the day; the row carries the model version, the
  time of the second update as its evaluation date, and the second update's value in
  every metric that the second body supplies.
\<close>

theorem upsert_one_row_per_local_day:
  assumes "role u = ''admin''"
    and "modelVersion b1 = Some v" and "modelVersion b2 = Some v" and "v \<noteq> []"
    and "\<not> falsyNumber (accuracyRate b1)" and "\<not> falsyNumber (accuracyRate b2)"
    and "dayStart e2 = dayStart e1" and "dayEnd e2 = dayEnd e1"
    and "dayStart e1 \<le> now e1" and "now e1 < dayEnd e1"
    and "dayStart e1 \<le> now e2" and "now e2 \<le> dayEnd e1"
    and "length (rowsOfDay e1 v (AIModelPerformance (database st))) \<le> 1"
    and "\<forall>r\<in>set (rowsOfDay e1 v (AIModelPerformance (database st))).
           evaluation_date r < dayEnd e1"
  shows "\<exists>r. rowsOfDay e2 v
               (storedRows (postAiPerformance e2 (snd (postAiPerformance e1 st (Verified u) b1))
                              (Verified u) b2)) = [r]
           \<and> model_version r = Some v \<and> evaluation_date r = now e2 \<and> reflects b2 r"
proof -
  let ?st1 = "snd (postAiPerformance e1 st (Verified u) b1)"
  have same: "rowsOfDay e2 v rows = rowsOfDay e1 v rows" for rows
    using assms(7,8) by (simp add: rowsOfDay_def)
  have "now e1 \<le> dayEnd e1" using assms(10) by simp
  from post_single_row [OF assms(1,2,4,5,9) this assms(13,14)]
  obtain r1 where one:
    "rowsOfDay e1 v (AIModelPerformance (database ?st1)) = [performanceUpdate e1 v b1 r1]"
    by (auto simp: storedRows_def)
  have "length (rowsOfDay e2 v (AIModelPerformance (database ?st1))) \<le> 1"
    using one same by simp
  moreover have "\<forall>r\<in>set (rowsOfDay e2 v (AIModelPerformance (database ?st1))).
           evaluation_date r < dayEnd e2"
    using one same assms(8,10) by (simp add: performanceUpdate_def)
  moreover have "dayStart e2 \<le> now e2" "now e2 \<le> dayEnd e2"
    using assms(7,8,11,12) by simp_all
  ultimately obtain r2 where
    "rowsOfDay e2 v (storedRows (postAiPerformance e2 ?st1 (Verified u) b2))
       = [performanceUpdate e2 v b2 r2]"
    using post_single_row [OF assms(1,3,4,6), of e2 ?st1] by blast
  then show ?thesis using performanceUpdate_reflects [of e2 v b2 r2] by simp
qed

lemma setHours_utcAt:
  "setHours (utcAt v t) h mi s ms = t div 86400000 * 86400000 + MakeTime h mi s ms"
  by (simp add: setHours_def utcAt_def LocalTime_def UTC_def Day_def msPerDay_def)

lemma setHours_aheadAt:
  "setHours (aheadAt v t) h mi s ms
     = (t + 3600000) div 86400000 * 86400000 + MakeTime h mi s ms - 3600000"
  by (simp add: setHours_def aheadAt_def LocalTime_def UTC_def Day_def msPerDay_def)

lemma twoUpdates_unfold:
  "twoUpdates e1 e2 =
     findOneAndUpdate (performanceFilter e2 ''v1'') (performanceUpdate e2 ''v1'' (bodyWith (9 / 10) 20))
       (upsertBase e2 ''v1'')
       (findOneAndUpdate (performanceFilter e1 ''v1'')
          (performanceUpdate e1 ''v1'' (bodyWith (9 / 10) 10)) (upsertBase e1 ''v1'') [])"
proof -
  have a: "role adminToken = ''admin''" by (simp add: adminToken_def)
  have b: "modelVersion (bodyWith (9 / 10) n) = Some ''v1''"
    "\<not> falsyNumber (accuracyRate (bodyWith (9 / 10) n))" for n
    by (simp_all add: bodyWith_def falsyNumber_def)
  have ne: "''v1'' \<noteq> []" by simp
  have "storedRows (postAiPerformance e1 emptyServer (Verified adminToken) (bodyWith (9 / 10) 10))
      = findOneAndUpdate (performanceFilter e1 ''v1'')
          (performanceUpdate e1 ''v1'' (bodyWith (9 / 10) 10)) (upsertBase e1 ''v1'') []"
    using post_success [where u = adminToken and b = "bodyWith (9 / 10) 10" and v = "''v1''"
        and e = e1 and st = emptyServer, OF a b(1) ne b(2)]
    by (simp add: emptyServer_def)
  then show ?thesis
    unfolding twoUpdates_def
    using post_success [where u = adminToken and b = "bodyWith (9 / 10) 20" and v = "''v1''"
        and e = e2
        and st = "snd (postAiPerformance e1 emptyServer (Verified adminToken) (bodyWith (9 / 10) 10))",
        OF a b(1) ne b(2)]
    by (simp add: storedRows_def)
qed

theorem upsert_one_row_per_local_day_witness:
  "rowsOfDay laterEnv ''v1'' (twoUpdates sampleEnv laterEnv)
     = [\<lparr>model_version = Some ''v1'', accuracy_rate = Some (9 / 10), precision_rate = None,
         recall_rate = None, f1_score = None, total_predictions = Some 20,
         correct_predictions = Some 0, evaluation_date = 1709168400000,
         created_at = Some 1709164800000\<rparr>]
   \<and> (\<exists>r. rowsOfDay laterEnv ''v1'' (twoUpdates sampleEnv laterEnv) = [r]
         \<and> model_version r = Some ''v1'' \<and> evaluation_date r = now laterEnv
         \<and> reflects (bodyWith (9 / 10) 20) r)"
proof
  show "rowsOfDay laterEnv ''v1'' (twoUpdates sampleEnv laterEnv)
     = [\<lparr>model_version = Some ''v1'', accuracy_rate = Some (9 / 10), precision_rate = None,
         recall_rate = None, f1_score = None, total_predictions = Some 20,
         correct_predictions = Some 0, evaluation_date = 1709168400000,
         created_at = Some 1709164800000\<rparr>]"
    unfolding twoUpdates_unfold sampleEnv_def laterEnv_def
    by (simp add: rowsOfDay_def dayStart_def dayEnd_def performanceFilter_def setHours_utcAt
        MakeTime_def performanceUpdate_def upsertBase_def setField_def bodyWith_def)
      (simp add: utcAt_def)
  have "\<exists>r. rowsOfDay laterEnv ''v1''
               (storedRows (postAiPerformance laterEnv
                  (snd (postAiPerformance sampleEnv emptyServer (Verified adminToken)
                         (bodyWith (9 / 10) 10)))
                  (Verified adminToken) (bodyWith (9 / 10) 20))) = [r]
           \<and> model_version r = Some ''v1'' \<and> evaluation_date r = now laterEnv
           \<and> reflects (bodyWith (9 / 10) 20) r"
  proof (rule upsert_one_row_per_local_day)
    show "role adminToken = ''admin''" by (simp add: adminToken_def)
    show "modelVersion (bodyWith (9 / 10) 10) = Some ''v1''" by (simp add: bodyWith_def)
    show "modelVersion (bodyWith (9 / 10) 20) = Some ''v1''" by (simp add: bodyWith_def)
    show "''v1'' \<noteq> []" by simp
    show "\<not> falsyNumber (accuracyRate (bodyWith (9 / 10) 10))"
      by (simp add: bodyWith_def falsyNumber_def)
    show "\<not> falsyNumber (accuracyRate (bodyWith (9 / 10) 20))"
      by (simp add: bodyWith_def falsyNumber_def)
    show "dayStart laterEnv = dayStart sampleEnv" "dayEnd laterEnv = dayEnd sampleEnv"
      by (simp_all add: dayStart_def dayEnd_def sampleEnv_def laterEnv_def setHours_utcAt)
    show "dayStart sampleEnv \<le> now sampleEnv" "now sampleEnv < dayEnd sampleEnv"
      "dayStart sampleEnv \<le> now laterEnv" "now laterEnv \<le> dayEnd sampleEnv"
      by (simp_all add: dayStart_def dayEnd_def sampleEnv_def laterEnv_def setHours_utcAt
          MakeTime_def) (simp_all add: utcAt_def)
    show "length (rowsOfDay sampleEnv ''v1'' (AIModelPerformance (database emptyServer))) \<le> 1"
      by (simp add: rowsOfDay_def emptyServer_def)
    show "\<forall>r\<in>set (rowsOfDay sampleEnv ''v1'' (AIModelPerformance (database emptyServer))).
           evaluation_date r < dayEnd sampleEnv"
      by (simp add: rowsOfDay_def emptyServer_def)
  qed
  then show "\<exists>r. rowsOfDay laterEnv ''v1'' (twoUpdates sampleEnv laterEnv) = [r]
         \<and> model_version r = Some ''v1'' \<and> evaluation_date r = now laterEnv
         \<and> reflects (bodyWith (9 / 10) 20) r"
    by (simp only: twoUpdates_def)
qed

text \<open>
  Claim C5, as stated, fails, in two ways and under either version of the mapper. The
  filter of the upsert ends before 23:59:59.999, so a row written in that millisecond is
  not found again: with the server on UTC, two updates of one version in the last
  millisecond of 1970-01-01 leave two rows for that day. And the day of the filter is the
  local one: with the server one hour ahead of UTC, updates at 22:30 and 23:30 UTC of one
  UTC day fall on two local days and leave two rows.
\<close>

theorem upsert_not_one_row_per_utc_day:
  "map evaluation_date (twoUpdates (utcAt Mongoose5 86399999) (utcAt Mongoose5 86399999))
     = [86399999, 86399999]
   \<and> map evaluation_date (twoUpdates (utcAt Mongoose6 86399999) (utcAt Mongoose6 86399999))
     = [86399999, 86399999]
   \<and> Day 81000000 = Day 84600000
   \<and> map evaluation_date (twoUpdates (aheadAt Mongoose5 81000000) (aheadAt Mongoose5 84600000))
     = [81000000, 84600000]
   \<and> map evaluation_date (twoUpdates (aheadAt Mongoose6 81000000) (aheadAt Mongoose6 84600000))
     = [81000000, 84600000]
   \<and> map model_version (twoUpdates (utcAt Mongoose6 86399999) (utcAt Mongoose6 86399999))
     = [Some ''v1'', Some ''v1'']
   \<and> map model_version (twoUpdates (aheadAt Mongoose6 81000000) (aheadAt Mongoose6 84600000))
     = [Some ''v1'', Some ''v1'']"
  unfolding twoUpdates_unfold
  by (simp add: performanceFilter_def setHours_utcAt setHours_aheadAt MakeTime_def
      performanceUpdate_def upsertBase_def Day_def msPerDay_def)
    (simp add: utcAt_def aheadAt_def)

subsection \<open>The overview: access and its two admin-only fields\<close>

lemma getOverview_Success:
  "getOverview e d (Verified u) = Success a \<Longrightarrow>
     (role u = ''admin'' \<or> role u = ''doctor'')
     \<and> a = overviewAnalytics e d u (if role u = ''doctor'' then IsId (userId u) else AnyId)"
  by (auto simp: getOverview_def authenticateToken_def requireRole_def castFilter_doctorFilter
      split: if_splits)

lemma getOverview_allowed:
  "role u = ''admin'' \<or> role u = ''doctor'' \<Longrightarrow>
     getOverview e d (Verified u)
       = Success (overviewAnalytics e d u (if role u = ''doctor'' then IsId (userId u) else AnyId))"
  by (auto simp: getOverview_def authenticateToken_def requireRole_def castFilter_doctorFilter)






subsection \<open>The histograms of the overview\<close>





lemma groupCount_keys: "map fst (groupCount ks) = remdups ks"
  by (simp add: groupCount_def comp_def)





text \<open>What the pipelines range over: every analysis without the entry, none with it.\<close>

lemma matched_all: "filter (\<lambda>a. matchStage None (analysis_doctor_id a)) as = as"
  by (simp add: matchStage_simps)

lemma matched_none: "filter (\<lambda>a. matchStage (Some s) (analysis_doctor_id a)) as = []"
  by (simp add: matchStage_simps)

lemma doctor_pipelines_empty:
  "conditionPipeline (Some s) as = []" "severityPipeline (Some s) as = []"
  "trendPipeline e (Some s) as = []" "confidencePipeline (Some s) as = []"
  by (simp_all add: conditionPipeline_def severityPipeline_def trendPipeline_def
      confidencePipeline_def matchStage_simps groupCount_def sortByCountDesc_def
      List.map_filter_simps)

lemma getOverview_admin:
  "getOverview sampleEnv sampleDb (Verified adminToken) = Success adminOverview"
  by (simp add: getOverview_allowed adminToken_def adminOverview_def)

lemma getOverview_ada: "getOverview sampleEnv sampleDb (Verified adaToken) = Success adaOverview"
  by (simp add: getOverview_allowed adaToken_def adaOverview_def)



lemma histogram_example:
  "sortByCountDesc (groupCount [''CNV'', ''DME'']) = [(''CNV'', 1), (''DME'', 1)]"
  by (simp add: sortByCountDesc_def groupCount_def)

lemma conditionDistribution_admin:
  "set (conditionDistribution adminOverview) = {(''CNV'', 1), (''DME'', 1)}"
  by (simp add: adminOverview_def overviewAnalytics_def conditionPipeline_def doctorFilter_def
      adminToken_def matchStage_simps sampleDb_def cnvAnalysis_def dmeAnalysis_def
      List.map_filter_simps histogram_example)


subsection \<open>The month labels of the trend series\<close>

lemma monthWalk_bounds:
  "mp \<le> fst (monthWalk ls doy mp) \<and> fst (monthWalk ls doy mp) \<le> mp + int (length ls)"
proof (induction ls arbitrary: doy mp)
  case Nil
  show ?case by simp
next
  case (Cons l ls)
  have "mp + 1 \<le> fst (monthWalk ls (doy - l) (mp + 1))
      \<and> fst (monthWalk ls (doy - l) (mp + 1)) \<le> mp + 1 + int (length ls)"
    using Cons.IH [of "mp + 1" "doy - l"] by simp
  then show ?case by simp
qed

lemma monthOf_walk:
  "\<exists>doy. monthOf t = (if fst (monthWalk marchMonths doy 0) < 10
                        then fst (monthWalk marchMonths doy 0) + 3
                        else fst (monthWalk marchMonths doy 0) - 9)"
  apply (simp only: monthOf_def civilFromDays_def Let_def split_def fst_conv snd_conv)
  apply (rule exI, rule refl)
  done

lemma monthOf_range: "1 \<le> monthOf t \<and> monthOf t \<le> 12"
proof -
  obtain doy where m: "monthOf t = (if fst (monthWalk marchMonths doy 0) < 10
                        then fst (monthWalk marchMonths doy 0) + 3
                        else fst (monthWalk marchMonths doy 0) - 9)"
    using monthOf_walk by blast
  have "0 \<le> fst (monthWalk marchMonths doy 0) \<and> fst (monthWalk marchMonths doy 0) \<le> 11"
    using monthWalk_bounds [of 0 marchMonths doy] by (simp add: marchMonths_def)
  with m show ?thesis by auto
qed

lemma digitsOf_one: "n < 10 \<Longrightarrow> digitsOf n = [digitChar n]"
  by (subst digitsOf.simps) simp

lemma digitsOf_two:
  assumes "10 \<le> n" "n < 100"
  shows "digitsOf n = [digitChar (n div 10), digitChar (n mod 10)]"
proof -
  have "n div 10 < 10" using assms by simp
  then have "digitsOf (n div 10) = [digitChar (n div 10)]" by (rule digitsOf_one)
  then show ?thesis using assms by (subst digitsOf.simps) simp
qed

lemma monthLabel_zeroPad2:
  assumes "1 \<le> m" "m \<le> 12"
  shows "monthLabel y m = toString y @ ''-'' @ zeroPad2 m"
proof (cases "m < 10")
  case True
  then have "nat m < 10" using assms by simp
  then have "toString m = [digitChar (nat m)]"
    using assms by (simp add: toString_def digitsOf_one)
  moreover have "zeroPad2 m = [CHR ''0'', digitChar (nat m)]"
    using \<open>nat m < 10\<close> by (simp add: zeroPad2_def digitChar_def)
  ultimately show ?thesis using True by (simp add: monthLabel_def)
next
  case False
  then have "10 \<le> nat m" "nat m < 100" using assms by simp_all
  then have "toString m = zeroPad2 m"
    using assms by (simp add: toString_def digitsOf_two zeroPad2_def)
  then show ?thesis using False by (simp add: monthLabel_def)
qed


lemma zeroPad2_small: "1 \<le> m \<Longrightarrow> m < 10 \<Longrightarrow> zeroPad2 m = CHR ''0'' # toString m"
  by (simp add: zeroPad2_def toString_def digitsOf_one digitChar_def)

lemma zeroPad2_large: "10 \<le> m \<Longrightarrow> m \<le> 12 \<Longrightarrow> zeroPad2 m = toString m"
  by (simp add: zeroPad2_def toString_def digitsOf_two)

lemma labels_of_success:
  assumes "getOverview e d (Verified u) = Success a" and "entry \<in> set (monthlyTrends a)"
  shows "\<exists>x\<in>set (RetinalAnalysis d).
           twelveMonthsAgo e \<le> analysis_created_at x
         \<and> fst entry = toString (yearOf (analysis_created_at x)) @ ''-''
                          @ zeroPad2 (monthOf (analysis_created_at x))
         \<and> 1 \<le> monthOf (analysis_created_at x) \<and> monthOf (analysis_created_at x) \<le> 12
         \<and> length (zeroPad2 (monthOf (analysis_created_at x))) = 2
         \<and> (monthOf (analysis_created_at x) < 10 \<longrightarrow>
              zeroPad2 (monthOf (analysis_created_at x))
                = CHR ''0'' # toString (monthOf (analysis_created_at x)))
         \<and> (10 \<le> monthOf (analysis_created_at x) \<longrightarrow>
              zeroPad2 (monthOf (analysis_created_at x))
                = toString (monthOf (analysis_created_at x)))"
proof -
  let ?docs = "filter (\<lambda>x. twelveMonthsAgo e \<le> analysis_created_at x
                        \<and> matchStage (doctorFilter u) (analysis_doctor_id x)) (RetinalAnalysis d)"
  let ?keys = "map (\<lambda>x. (yearOf (analysis_created_at x), monthOf (analysis_created_at x))) ?docs"
  have a: "a = overviewAnalytics e d u (if role u = ''doctor'' then IsId (userId u) else AnyId)"
    using getOverview_Success [OF assms(1)] by simp
  have "monthlyTrends a
      = map (\<lambda>g. (monthLabel (fst (fst g)) (snd (fst g)), snd g))
          (sort_key fst (groupCount ?keys))"
    by (simp add: a overviewAnalytics_def trendPipeline_def)
  with assms(2) obtain g where g: "g \<in> set (groupCount ?keys)"
    and entry: "entry = (monthLabel (fst (fst g)) (snd (fst g)), snd g)"
    by auto
  have "fst g \<in> set (map fst (groupCount ?keys))" using g by simp
  then have "fst g \<in> set ?keys" by (simp only: groupCount_keys set_remdups)
  then obtain x where x: "x \<in> set ?docs"
    and key: "fst g = (yearOf (analysis_created_at x), monthOf (analysis_created_at x))"
    by auto
  let ?m = "monthOf (analysis_created_at x)"
  have rng: "1 \<le> ?m \<and> ?m \<le> 12" by (rule monthOf_range)
  have "fst entry = toString (yearOf (analysis_created_at x)) @ ''-'' @ zeroPad2 ?m"
    using entry key rng by (simp add: monthLabel_zeroPad2)
  moreover have "length (zeroPad2 ?m) = 2" by (simp add: zeroPad2_def)
  moreover have "?m < 10 \<longrightarrow> zeroPad2 ?m = CHR ''0'' # toString ?m"
    using rng by (simp add: zeroPad2_small)
  moreover have "10 \<le> ?m \<longrightarrow> zeroPad2 ?m = toString ?m"
    using rng by (simp add: zeroPad2_large)
  moreover have "x \<in> set (RetinalAnalysis d)" "twelveMonthsAgo e \<le> analysis_created_at x"
    using x by simp_all
  ultimately show ?thesis using rng by blast
qed

lemma labels_cover:
  assumes "getOverview e d (Verified u) = Success a" and "role u = ''admin''"
    and "x \<in> set (RetinalAnalysis d)" and "twelveMonthsAgo e \<le> analysis_created_at x"
  shows "toString (yearOf (analysis_created_at x)) @ ''-''
           @ zeroPad2 (monthOf (analysis_created_at x)) \<in> fst ` set (monthlyTrends a)"
proof -
  define docs where "docs = filter (\<lambda>x. twelveMonthsAgo e \<le> analysis_created_at x
                        \<and> matchStage (doctorFilter u) (analysis_doctor_id x)) (RetinalAnalysis d)"
  define key where "key = (\<lambda>x :: analysis. (yearOf (analysis_created_at x), monthOf (analysis_created_at x)))"
  define label where "label = (\<lambda>g :: (int \<times> int) \<times> nat. (monthLabel (fst (fst g)) (snd (fst g)), snd g))"
  have a: "a = overviewAnalytics e d u (if role u = ''doctor'' then IsId (userId u) else AnyId)"
    using getOverview_Success [OF assms(1)] by simp
  have t: "monthlyTrends a = map label (sort_key fst (groupCount (map key docs)))"
    by (simp add: a overviewAnalytics_def trendPipeline_def docs_def key_def label_def)
  have f: "doctorFilter u = None" using assms(2) by (simp add: doctorFilter_def)
  have "x \<in> set docs"
    unfolding docs_def f using assms(3,4) by (simp add: matchStage_simps)
  then have "key x \<in> key ` set docs" by (rule imageI)
  then have "key x \<in> set (map fst (groupCount (map key docs)))"
    by (simp only: groupCount_keys set_remdups set_map)
  then have "key x \<in> fst ` set (groupCount (map key docs))" by (simp only: set_map)
  then obtain g where g: "g \<in> set (groupCount (map key docs))" and k: "key x = fst g"
    by (rule imageE)
  have "g \<in> set (sort_key fst (groupCount (map key docs)))" using g by (simp only: set_sort)
  then have "label g \<in> label ` set (sort_key fst (groupCount (map key docs)))" by (rule imageI)
  then have m: "label g \<in> set (monthlyTrends a)" by (simp only: t set_map)
  have "fst (label g) = monthLabel (yearOf (analysis_created_at x)) (monthOf (analysis_created_at x))"
    using k [symmetric] by (simp add: label_def key_def)
  also have "\<dots> = toString (yearOf (analysis_created_at x)) @ ''-''
           @ zeroPad2 (monthOf (analysis_created_at x))"
    using monthOf_range [of "analysis_created_at x"] by (simp add: monthLabel_zeroPad2)
  finally have "toString (yearOf (analysis_created_at x)) @ ''-''
           @ zeroPad2 (monthOf (analysis_created_at x)) = fst (label g)" by (rule sym)
  then show ?thesis using m by (rule image_eqI)
qed

text \<open>
  Claim C7: an admin or a doctor receives an overview; every label of its monthly trends is
  the decimal year of a group of analyses of the last twelve months, a hyphen, and the
  month of the group padded with zeros to two digits: a zero and the month's numeral below
  10, the numeral itself from 10 to 12. For an admin every analysis of the last twelve
  months has the label of its month in the series; for a doctor the series is empty,
  since the string of the token matches no stored \<^verbatim>\<open>doctor_id\<close>.
\<close>

theorem month_labels_zero_padded:
  assumes "role u = ''admin'' \<or> role u = ''doctor''"
  shows "\<exists>a. getOverview e d (Verified u) = Success a
    \<and> (\<forall>entry\<in>set (monthlyTrends a). \<exists>x\<in>set (RetinalAnalysis d).
           twelveMonthsAgo e \<le> analysis_created_at x
         \<and> fst entry = toString (yearOf (analysis_created_at x)) @ ''-''
                          @ zeroPad2 (monthOf (analysis_created_at x))
         \<and> 1 \<le> monthOf (analysis_created_at x) \<and> monthOf (analysis_created_at x) \<le> 12
         \<and> length (zeroPad2 (monthOf (analysis_created_at x))) = 2
         \<and> (monthOf (analysis_created_at x) < 10 \<longrightarrow>
              zeroPad2 (monthOf (analysis_created_at x))
                = CHR ''0'' # toString (monthOf (analysis_created_at x)))
         \<and> (10 \<le> monthOf (analysis_created_at x) \<longrightarrow>
              zeroPad2 (monthOf (analysis_created_at x))
                = toString (monthOf (analysis_created_at x))))
    \<and> (role u = ''admin'' \<longrightarrow>
         (\<forall>x\<in>set (RetinalAnalysis d). twelveMonthsAgo e \<le> analysis_created_at x \<longrightarrow>
            toString (yearOf (analysis_created_at x)) @ ''-''
              @ zeroPad2 (monthOf (analysis_created_at x)) \<in> fst ` set (monthlyTrends a)))
    \<and> (role u = ''doctor'' \<longrightarrow> monthlyTrends a = [])"
proof -
  let ?a = "overviewAnalytics e d u (if role u = ''doctor'' then IsId (userId u) else AnyId)"
  have ok: "getOverview e d (Verified u) = Success ?a"
    using assms by (rule getOverview_allowed)
  have "role u = ''doctor'' \<longrightarrow> monthlyTrends ?a = []"
    by (simp add: overviewAnalytics_def doctorFilter_def doctor_pipelines_empty)
  then show ?thesis
    using ok labels_of_success [OF ok] labels_cover [OF ok] by blast
qed

lemma Let_pair: "(let p = (a, b) in f p) = f (a, b)"
  by simp

lemma civil_samples:
  "civilFromDays (Day 1704844800000) = (2024, 1, 10)"
  "civilFromDays (Day 1707955200000) = (2024, 2, 15)"
  "civilFromDays (Day 1709164800000) = (2024, 2, 29)"
  by (simp_all add: civilFromDays_def Day_def msPerDay_def marchMonths_def Let_pair
      cong: let_weak_cong)

lemma twelveMonthsAgo_sample: "twelveMonthsAgo sampleEnv = 1677628800000"
  by (simp add: twelveMonthsAgo_def sampleEnv_def utcAt_def LocalTime_def UTC_def civil_samples
      MakeDay_def daysFromCivil_def TimeWithinDay_def Let_pair msPerDay_def cong: let_weak_cong)

lemma toString_2024: "toString 2024 = ''2024''"
  by (simp add: toString_def digitsOf.simps [of 2024] digitsOf.simps [of 202]
      digitsOf.simps [of 20] digitsOf.simps [of 2] digitChar_def)

lemma toString_digit: "toString 1 = ''1''" "toString 2 = ''2''"
  by (simp_all add: toString_def digitsOf_one digitChar_def)

lemma monthLabel_samples: "monthLabel 2024 1 = ''2024-01''" "monthLabel 2024 2 = ''2024-02''"
  by (simp_all add: monthLabel_def toString_2024 toString_digit)

lemma sample_trends:
  "trendPipeline sampleEnv None (RetinalAnalysis sampleDb)
     = [(''2024-01'', 1), (''2024-02'', 1)]"
  by (simp add: trendPipeline_def sampleDb_def cnvAnalysis_def dmeAnalysis_def
      twelveMonthsAgo_sample matchStage_simps yearOf_def monthOf_def civil_samples
      groupCount_def monthLabel_samples)

theorem month_labels_zero_padded_witness:
  "getOverview sampleEnv sampleDb (Verified adminToken) = Success adminOverview
   \<and> monthlyTrends adminOverview = [(''2024-01'', 1), (''2024-02'', 1)]
   \<and> (\<exists>x\<in>set (RetinalAnalysis sampleDb).
           twelveMonthsAgo sampleEnv \<le> analysis_created_at x
         \<and> ''2024-01'' = toString (yearOf (analysis_created_at x)) @ ''-''
                          @ zeroPad2 (monthOf (analysis_created_at x))
         \<and> length (zeroPad2 (monthOf (analysis_created_at x))) = 2)"
proof -
  have t: "monthlyTrends adminOverview = [(''2024-01'', 1), (''2024-02'', 1)]"
    by (simp add: adminOverview_def overviewAnalytics_def doctorFilter_def adminToken_def
        sample_trends)
  have "role adminToken = ''admin'' \<or> role adminToken = ''doctor''"
    by (simp add: adminToken_def)
  from month_labels_zero_padded [OF this, of sampleEnv sampleDb]
  have "\<forall>entry\<in>set (monthlyTrends adminOverview).
          \<exists>x\<in>set (RetinalAnalysis sampleDb).
            twelveMonthsAgo sampleEnv \<le> analysis_created_at x
          \<and> fst entry = toString (yearOf (analysis_created_at x)) @ ''-''
                          @ zeroPad2 (monthOf (analysis_created_at x))
          \<and> length (zeroPad2 (monthOf (analysis_created_at x))) = 2"
    using getOverview_admin by auto
  then have "\<exists>x\<in>set (RetinalAnalysis sampleDb).
            twelveMonthsAgo sampleEnv \<le> analysis_created_at x
          \<and> fst (''2024-01'', 1::nat) = toString (yearOf (analysis_created_at x)) @ ''-''
                          @ zeroPad2 (monthOf (analysis_created_at x))
          \<and> length (zeroPad2 (monthOf (analysis_created_at x))) = 2"
    unfolding t by simp
  with t getOverview_admin show ?thesis by simp
qed

subsection \<open>The worked example of the overview\<close>

lemma digitsOf_8850: "digitsOf 8850 = ''8850''"
  by (simp add: digitsOf.simps [of 8850] digitsOf.simps [of 885] digitsOf.simps [of 88]
      digitsOf.simps [of 8] digitChar_def)

lemma round_example: "nat \<lfloor>\<bar>177 / 200 :: rat\<bar> * 10 ^ 4 + 1 / 2\<rfloor> = 8850"
proof -
  have "\<lfloor>\<bar>177 / 200 :: rat\<bar> * 10 ^ 4 + 1 / 2\<rfloor> = 8850"
    by (rule floor_unique) simp_all
  then show ?thesis by simp
qed

lemma toFixed_example: "toFixed 4 (177 / 200) = ''0.8850''"
  unfolding toFixed_def round_example Let_def digitsOf_8850 by simp

text \<open>
  The string is the same for every value within 0.00005 of the exact mean 0.885, so the
  rounding of binary floating point in the sum and the division does not change it.
\<close>

lemma toFixed_8850:
  assumes "nat \<lfloor>\<bar>x\<bar> * 10 ^ 4 + 1 / 2\<rfloor> = 8850" and "0 \<le> x"
  shows "toFixed 4 x = ''0.8850''"
  unfolding toFixed_def Let_def assms(1) digitsOf_8850 using assms(2) by simp

lemma toFixed_near:
  assumes "\<bar>x - 177 / 200\<bar> < 1 / 20000"
  shows "toFixed 4 x = ''0.8850''"
proof (rule toFixed_8850)
  have lo: "17699 / 20000 < x" and hi: "x < 17701 / 20000"
    using assms by linarith+
  show pos: "0 \<le> x" using lo by linarith
  have "\<lfloor>x * 10 ^ 4 + 1 / 2\<rfloor> = 8850"
  proof (rule floor_unique)
    show "of_int 8850 \<le> x * 10 ^ 4 + 1 / 2" using lo by simp
    show "x * 10 ^ 4 + 1 / 2 < of_int 8850 + 1" using hi by simp
  qed
  then show "nat \<lfloor>\<bar>x\<bar> * 10 ^ 4 + 1 / 2\<rfloor> = 8850" using pos by simp
qed

lemma formatAverage_example: "formatAverage [Some (177 / 200)] = ''0.8850''"
  by (simp add: formatAverage_def toFixed_example)

lemma avg_example: "avg [Some (95 / 100), Some (82 / 100)] = Some (177 / 200)"
  by (simp add: avg_def List.map_filter_simps)

text \<open>
  Claim C3 expects, for the doctor of the two sample analyses, the two conditions with
  count 1 and the average confidence 0.8850. An admin gets exactly that on these data,
  so the pipelines compute what the claim says once they match the analyses.
\<close>

lemma overview_example_admin:
  "totalAnalyses adminOverview = 2
   \<and> set (conditionDistribution adminOverview) = {(''CNV'', 1), (''DME'', 1)}
   \<and> averageConfidence adminOverview = ''0.8850''"
proof -
  have nn: "confidence_score cnvAnalysis \<noteq> None" "confidence_score dmeAnalysis \<noteq> None"
    by (simp_all add: cnvAnalysis_def dmeAnalysis_def)
  have f: "filter (\<lambda>a. confidence_score a \<noteq> None \<and> matchStage None (analysis_doctor_id a))
             [cnvAnalysis, dmeAnalysis] = [cnvAnalysis, dmeAnalysis]"
    using nn by (simp add: matchStage_simps)
  have m: "map confidence_score [cnvAnalysis, dmeAnalysis] = [Some (95 / 100), Some (82 / 100)]"
    by (simp add: cnvAnalysis_def dmeAnalysis_def)
  have r: "RetinalAnalysis sampleDb = [cnvAnalysis, dmeAnalysis]" by (simp add: sampleDb_def)
  have "confidencePipeline None (RetinalAnalysis sampleDb)
      = [avg [Some (95 / 100), Some (82 / 100)]]"
    unfolding confidencePipeline_def Let_def r f m by simp
  then have "confidencePipeline None (RetinalAnalysis sampleDb) = [Some (177 / 200)]"
    by (simp only: avg_example)
  then have "averageConfidence adminOverview = ''0.8850''"
    by (simp add: adminOverview_def overviewAnalytics_def doctorFilter_def adminToken_def
        formatAverage_example)
  moreover have "totalAnalyses adminOverview = 2"
    by (simp add: adminOverview_def overviewAnalytics_def sampleDb_def)
  ultimately show ?thesis using conditionDistribution_admin by simp
qed

text \<open>
  Claim C3 on the code: the doctor who owns the two analyses gets \<open>totalAnalyses = 2\<close>,
  from the cast count, but an empty condition distribution and the average confidence
  \<open>0.0000\<close>, because the pipelines match \<^verbatim>\<open>doctor_id\<close> with the string of the token.
\<close>

theorem overview_two_analyses_on_code:
  "getOverview sampleEnv sampleDb (Verified adaToken) = Success adaOverview
   \<and> totalAnalyses adaOverview = 2
   \<and> conditionDistribution adaOverview = []
   \<and> averageConfidence adaOverview = ''0.0000''"
proof -
  have "totalAnalyses adaOverview = 2"
    by (simp add: adaOverview_def overviewAnalytics_def sampleDb_def cnvAnalysis_def
        dmeAnalysis_def)
  moreover have "conditionDistribution adaOverview = []"
    "averageConfidence adaOverview = ''0.0000''"
    by (simp_all add: adaOverview_def overviewAnalytics_def doctorFilter_def adaToken_def
        doctor_pipelines_empty formatAverage_def)
  ultimately show ?thesis using getOverview_ada by simp
qed

end
